theory Spec2Isabelle
  imports Complex_Main
begin

unbundle bit_operations_syntax

section \<open>Data model\<close>

text \<open>
  The development embeds \<^verbatim>\<open>src/ASPHERE/compute_temp_asphere.cpp\<close>: the compute
  \<^verbatim>\<open>temp/asphere\<close> of LAMMPS, which sums the translational and rotational kinetic
  energy of ellipsoidal particles and turns the sum into a temperature.

  Conventions of the embedding.
  \<^item> A C++ \<^verbatim>\<open>double\<close> that the code reads (from the particles, the force field,
    the group) is the \<^typ>\<open>real\<close> it holds, and so are the degrees of freedom and the
    scale factor; rounding is not represented anywhere. \<^verbatim>\<open>compute_vector\<close> is
    written over the reals: where the code divides by zero there, IEEE arithmetic
    yields an infinity or a NaN whereas HOL's division yields 0, and no statement
    below relies on that value. The sum and the value of \<^verbatim>\<open>compute_scalar\<close> are
    \<open>double\<close>s with the infinities and NaN, and every operation on the way to them is
    the IEEE operation: exact while the result is in range, an infinity when it
    overflows, NaN for \<open>\<infinity> - \<infinity>\<close>, \<open>0 \<times> \<infinity>\<close>, \<open>0 / 0\<close> and \<open>\<infinity> / \<infinity>\<close>. The body of
    the loop of \<^verbatim>\<open>compute_scalar\<close> is given over the reals as well; the two agree
    whenever the \<open>double\<close> is finite.
  \<^item> A C++ \<^verbatim>\<open>int\<close> has 32 bits. The members and parameters of type \<^verbatim>\<open>int\<close> are
    \<^typ>\<open>int\<close>s; the \<^verbatim>\<open>int\<close> arithmetic of \<^verbatim>\<open>dof_compute\<close> wraps around, as
    \<open>int32\<close> writes out. Signed overflow is undefined behaviour in C++; the wrap-around
    is what the two's complement machines do that the code runs on. The sum over the
    fixes in \<^verbatim>\<open>init\<close>, whose terms come from a class that is not among the sources,
    is the sum of the integers.
  \<^item> A C array reached through a pointer (\<^verbatim>\<open>atom->v\<close>, \<^verbatim>\<open>avec->bonus\<close>,
    \<^verbatim>\<open>modify->compute\<close>) is a function from the index to the element, with its
    length kept in the field the code keeps it in (\<^verbatim>\<open>nlocal\<close>).
  \<^item> A fixed array \<^verbatim>\<open>double[3]\<close>, \<^verbatim>\<open>double[4]\<close>, \<^verbatim>\<open>double[6]\<close> or
    \<^verbatim>\<open>double[3][3]\<close> is a tuple, and a loop over its six entries is written out.
  \<^item> \<^verbatim>\<open>error->one\<close> and \<^verbatim>\<open>error->all\<close> stop the run; they are the \<open>Inl\<close> results.
  \<^item> The state is that of one process of the parallel run; the other processes enter
    through what they contribute to the reductions.
\<close>

type_synonym vec3 = "real \<times> real \<times> real"
type_synonym quaternion = "real \<times> real \<times> real \<times> real"
type_synonym mat3 = "vec3 \<times> vec3 \<times> vec3"
type_synonym vec6 = "real \<times> real \<times> real \<times> real \<times> real \<times> real"

text \<open>
  The value of a 32-bit \<^verbatim>\<open>int\<close> expression whose mathematical value is \<open>x\<close>: \<open>x\<close>
  itself from \<open>-2\<^sup>3\<^sup>1\<close> to \<open>2\<^sup>3\<^sup>1 - 1\<close>, and wrapped around by multiples of
  \<open>2\<^sup>3\<^sup>2\<close> outside.
\<close>

definition int32 :: "int \<Rightarrow> int" where
  "int32 x = (x + 2147483648) mod 4294967296 - 2147483648"

text \<open>
  An IEEE \<^verbatim>\<open>double\<close>: a finite value, an infinity or NaN. \<open>double_of x\<close> is the
  \<^verbatim>\<open>double\<close> that holds the result \<open>x\<close> of an operation: rounding to nearest
  overflows to an infinity from \<open>2\<^sup>1\<^sup>0\<^sup>2\<^sup>4 - 2\<^sup>9\<^sup>7\<^sup>0\<close> on, and below that the value
  is kept as it is (neither rounding nor underflow is represented). Zero has no
  sign: \<open>double_inf x\<close> is the infinity with the sign of \<open>x\<close>, and NaN for 0.

  The IEEE operations. The sum is NaN if an operand is NaN or the operands are
  infinities of opposite sign, and an infinity if one operand is. The product is
  NaN if a factor is NaN or if one factor is an infinity and the other is zero, and
  an infinity with the sign of the product if one factor is an infinity. The
  quotient is NaN if an operand is NaN, for \<open>0 / 0\<close> and for \<open>\<infinity> / \<infinity>\<close>; a finite
  value divided by zero is an infinity with the sign of the dividend, a finite value
  divided by an infinity is zero, and an infinity divided by a finite value is an
  infinity. On finite operands each is the operation on the values, held in a
  \<^verbatim>\<open>double\<close>. The operations are written \<open>+\<close>, \<open>*\<close> and \<open>/\<close> on \<open>double\<close>.
\<close>

datatype double = Finite real | PInf | NInf | NaN

definition overflow_threshold :: real where
  "overflow_threshold = 2 ^ 1024 - 2 ^ 970"

definition double_of :: "real \<Rightarrow> double" where
  "double_of x =
     (if overflow_threshold \<le> x then PInf
      else if x \<le> - overflow_threshold then NInf
      else Finite x)"

definition double_inf :: "real \<Rightarrow> double" where
  "double_inf x = (if 0 < x then PInf else if x < 0 then NInf else NaN)"

fun double_mul :: "double \<Rightarrow> double \<Rightarrow> double" where
  "double_mul NaN y = NaN"
| "double_mul x NaN = NaN"
| "double_mul (Finite x) (Finite y) = double_of (x * y)"
| "double_mul (Finite x) PInf = double_inf x"
| "double_mul (Finite x) NInf = double_inf (- x)"
| "double_mul PInf (Finite y) = double_inf y"
| "double_mul NInf (Finite y) = double_inf (- y)"
| "double_mul PInf PInf = PInf"
| "double_mul PInf NInf = NInf"
| "double_mul NInf PInf = NInf"
| "double_mul NInf NInf = PInf"

fun double_add :: "double \<Rightarrow> double \<Rightarrow> double" where
  "double_add NaN y = NaN"
| "double_add x NaN = NaN"
| "double_add (Finite x) (Finite y) = double_of (x + y)"
| "double_add (Finite x) PInf = PInf"
| "double_add (Finite x) NInf = NInf"
| "double_add PInf (Finite y) = PInf"
| "double_add NInf (Finite y) = NInf"
| "double_add PInf PInf = PInf"
| "double_add NInf NInf = NInf"
| "double_add PInf NInf = NaN"
| "double_add NInf PInf = NaN"

fun double_div :: "double \<Rightarrow> double \<Rightarrow> double" where
  "double_div NaN y = NaN"
| "double_div x NaN = NaN"
| "double_div (Finite x) (Finite y) = (if y = 0 then double_inf x else double_of (x / y))"
| "double_div (Finite x) PInf = Finite 0"
| "double_div (Finite x) NInf = Finite 0"
| "double_div PInf (Finite y) = (if 0 \<le> y then PInf else NInf)"
| "double_div NInf (Finite y) = (if 0 \<le> y then NInf else PInf)"
| "double_div PInf PInf = NaN"
| "double_div PInf NInf = NaN"
| "double_div NInf PInf = NaN"
| "double_div NInf NInf = NaN"

instantiation double :: "{plus, times, inverse}"
begin

definition plus_double :: "double \<Rightarrow> double \<Rightarrow> double" where
  "plus_double = double_add"

definition times_double :: "double \<Rightarrow> double \<Rightarrow> double" where
  "times_double = double_mul"

definition divide_double :: "double \<Rightarrow> double \<Rightarrow> double" where
  "divide_double = double_div"

definition inverse_double :: "double \<Rightarrow> double" where
  "inverse_double = double_div (Finite 1)"

instance ..

end

text \<open>The \<^verbatim>\<open>double\<close>s that hold the entries of a vector and of a matrix.\<close>

definition vec3_double :: "vec3 \<Rightarrow> double \<times> double \<times> double" where
  "vec3_double u = (case u of (u0, u1, u2) \<Rightarrow> (Finite u0, Finite u1, Finite u2))"

definition mat3_double ::
  "mat3 \<Rightarrow> (double \<times> double \<times> double) \<times> (double \<times> double \<times> double) \<times> (double \<times> double \<times> double)" where
  "mat3_double m = (case m of (r0, r1, r2) \<Rightarrow> (vec3_double r0, vec3_double r1, vec3_double r2))"

text \<open>\<^verbatim>\<open>AtomVecEllipsoid::Bonus\<close>: the semi-axes and the orientation of one ellipsoid.\<close>

record Bonus =
  shape :: vec3
  quat :: quaternion

text \<open>
  The per-process particle store: the members of \<^verbatim>\<open>Atom\<close> that the compute reads,
  and \<^verbatim>\<open>avec->bonus\<close>. \<^verbatim>\<open>ellipsoid[i]\<close> is the index of particle \<open>i\<close>'s record in
  \<^verbatim>\<open>bonus\<close>, negative for a point particle.
\<close>

record Atom =
  atom_nlocal :: int
  atom_mask :: "nat \<Rightarrow> int"
  atom_ellipsoid :: "nat \<Rightarrow> int"
  atom_v :: "nat \<Rightarrow> vec3"
  atom_angmom :: "nat \<Rightarrow> vec3"
  atom_rmass :: "nat \<Rightarrow> real"
  avec_bonus :: "int \<Rightarrow> Bonus"

text \<open>
  The collaborators that the compute only reads: \<^verbatim>\<open>update->ntimestep\<close>,
  \<^verbatim>\<open>force->mvv2e\<close>, \<^verbatim>\<open>force->boltz\<close>, \<^verbatim>\<open>domain->dimension\<close>,
  \<^verbatim>\<open>group->count(igroup)\<close>, the fixes of \<^verbatim>\<open>modify\<close> (\<open>modify_fix_dof i g\<close> is
  \<^verbatim>\<open>modify->fix[i]->dof(g)\<close>) and \<^verbatim>\<open>modify->find_compute\<close>. The classes
  \<^verbatim>\<open>Group\<close>, \<^verbatim>\<open>Fix\<close> and \<^verbatim>\<open>Modify\<close> are not among the sources: what their
  functions return is a parameter. So is \<^verbatim>\<open>MathExtra::quat_to_mat\<close>, declared in
  \<^verbatim>\<open>math_extra.h\<close>: it is the parameter \<open>quat_to_mat\<close>.
\<close>

record env =
  update_ntimestep :: int
  force_mvv2e :: real
  force_boltz :: real
  domain_dimension :: int
  group_count :: "int \<Rightarrow> real"
  modify_nfix :: int
  modify_fix_dof :: "nat \<Rightarrow> int \<Rightarrow> int"
  modify_find_compute :: "string \<Rightarrow> int"
  quat_to_mat :: "quaternion \<Rightarrow> mat3"

section \<open>The rigid-body kernel\<close>

text \<open>
  Modelled from the spec: \<^verbatim>\<open>MathExtra::transpose_matvec\<close> (\<^verbatim>\<open>math_extra.h\<close> is not
  among the sources) is the product of the transposed matrix with the vector, the
  \<open>R\<^sup>t(q)\<cdot>L\<close> of the specification. A matrix is the triple of its rows. The
  definition serves the reals and the \<open>double\<close>s.
\<close>

definition transpose_matvec ::
  "('a::{plus, times} \<times> 'a \<times> 'a) \<times> ('a \<times> 'a \<times> 'a) \<times> ('a \<times> 'a \<times> 'a) \<Rightarrow> 'a \<times> 'a \<times> 'a
     \<Rightarrow> 'a \<times> 'a \<times> 'a" where
  "transpose_matvec m u =
     (case m of ((m00, m01, m02), (m10, m11, m12), (m20, m21, m22)) \<Rightarrow>
      case u of (u0, u1, u2) \<Rightarrow>
        (m00 * u0 + m10 * u1 + m20 * u2,
         m01 * u0 + m11 * u1 + m21 * u2,
         m02 * u0 + m12 * u1 + m22 * u2))"

text \<open>
  The body of the loop of \<^verbatim>\<open>compute_scalar\<close> for one monitored particle \<open>i\<close>
  (lines 175 to 195), over the reals: the accumulator \<open>t\<close> after the particle.
\<close>

definition compute_scalar_particle :: "env \<Rightarrow> Atom \<Rightarrow> nat \<Rightarrow> real \<Rightarrow> real" where
  "compute_scalar_particle e a i t =
     (case shape (avec_bonus a (atom_ellipsoid a i)) of (shape0, shape1, shape2) \<Rightarrow>
      case atom_v a i of (v0, v1, v2) \<Rightarrow>
      let q = quat (avec_bonus a (atom_ellipsoid a i));
          rmass = atom_rmass a i;
          t1 = t + (v0 * v0 + v1 * v1 + v2 * v2) * rmass;
          inertia0 = rmass * (shape1 * shape1 + shape2 * shape2) / 5;
          inertia1 = rmass * (shape0 * shape0 + shape2 * shape2) / 5;
          inertia2 = rmass * (shape0 * shape0 + shape1 * shape1) / 5;
          rot = quat_to_mat e q
      in case transpose_matvec rot (atom_angmom a i) of (w0, w1, w2) \<Rightarrow>
      let wbody0 = w0 / inertia0;
          wbody1 = w1 / inertia1;
          wbody2 = w2 / inertia2
      in t1 + (inertia0 * wbody0 * wbody0 +
               inertia1 * wbody1 * wbody1 + inertia2 * wbody2 * wbody2))"

text \<open>
  The loop of \<^verbatim>\<open>compute_scalar\<close> (lines 167 to 196): the local sum \<open>t\<close> over the
  particles of this process whose mask has the group's bit.
\<close>

definition compute_scalar_loop :: "env \<Rightarrow> int \<Rightarrow> Atom \<Rightarrow> real" where
  "compute_scalar_loop e groupbit a =
     fold (\<lambda>i t. if atom_mask a i AND groupbit \<noteq> 0 then compute_scalar_particle e a i t else t)
       [0..<nat (atom_nlocal a)] 0"

text \<open>
  The same body and the same loop in the arithmetic of \<^verbatim>\<open>double\<close>, operation by
  operation as lines 178 to 195 write them: the accumulator \<open>t\<close> as the code holds
  it, which is what \<^verbatim>\<open>compute_scalar\<close> reduces, scales and returns.
\<close>

definition compute_scalar_particle_double :: "env \<Rightarrow> Atom \<Rightarrow> nat \<Rightarrow> double \<Rightarrow> double" where
  "compute_scalar_particle_double e a i t =
     (case vec3_double (shape (avec_bonus a (atom_ellipsoid a i))) of (shape0, shape1, shape2) \<Rightarrow>
      case vec3_double (atom_v a i) of (v0, v1, v2) \<Rightarrow>
      let q = quat (avec_bonus a (atom_ellipsoid a i));
          rmass = Finite (atom_rmass a i);
          t1 = t + (v0 * v0 + v1 * v1 + v2 * v2) * rmass;
          inertia0 = rmass * (shape1 * shape1 + shape2 * shape2) / Finite 5;
          inertia1 = rmass * (shape0 * shape0 + shape2 * shape2) / Finite 5;
          inertia2 = rmass * (shape0 * shape0 + shape1 * shape1) / Finite 5;
          rot = mat3_double (quat_to_mat e q)
      in case transpose_matvec rot (vec3_double (atom_angmom a i)) of (w0, w1, w2) \<Rightarrow>
      let wbody0 = w0 / inertia0;
          wbody1 = w1 / inertia1;
          wbody2 = w2 / inertia2
      in t1 + (inertia0 * wbody0 * wbody0 +
               inertia1 * wbody1 * wbody1 + inertia2 * wbody2 * wbody2))"

definition compute_scalar_loop_double :: "env \<Rightarrow> int \<Rightarrow> Atom \<Rightarrow> double" where
  "compute_scalar_loop_double e groupbit a =
     fold (\<lambda>i t. if atom_mask a i AND groupbit \<noteq> 0 then compute_scalar_particle_double e a i t else t)
       [0..<nat (atom_nlocal a)] (Finite 0)"

text \<open>
  The body of the loop of \<^verbatim>\<open>compute_vector\<close> for one monitored particle
  (lines 236 to 270): the six accumulators, in the order \<open>t[0]\<close> to \<open>t[5]\<close>.
\<close>

definition compute_vector_particle :: "env \<Rightarrow> Atom \<Rightarrow> nat \<Rightarrow> vec6 \<Rightarrow> vec6" where
  "compute_vector_particle e a i t =
     (case t of (t0, t1, t2, t3, t4, t5) \<Rightarrow>
      case shape (avec_bonus a (atom_ellipsoid a i)) of (shape0, shape1, shape2) \<Rightarrow>
      case atom_v a i of (v0, v1, v2) \<Rightarrow>
      let q = quat (avec_bonus a (atom_ellipsoid a i));
          massone = atom_rmass a i;
          rmass = atom_rmass a i;
          t0 = t0 + massone * v0 * v0;
          t1 = t1 + massone * v1 * v1;
          t2 = t2 + massone * v2 * v2;
          t3 = t3 + massone * v0 * v1;
          t4 = t4 + massone * v0 * v2;
          t5 = t5 + massone * v1 * v2;
          inertia0 = rmass * (shape1 * shape1 + shape2 * shape2) / 5;
          inertia1 = rmass * (shape0 * shape0 + shape2 * shape2) / 5;
          inertia2 = rmass * (shape0 * shape0 + shape1 * shape1) / 5;
          rot = quat_to_mat e q
      in case transpose_matvec rot (atom_angmom a i) of (w0, w1, w2) \<Rightarrow>
      let wbody0 = w0 / inertia0;
          wbody1 = w1 / inertia1;
          wbody2 = w2 / inertia2
      in (t0 + inertia0 * wbody0 * wbody0,
          t1 + inertia1 * wbody1 * wbody1,
          t2 + inertia2 * wbody2 * wbody2,
          t3 + inertia0 * wbody0 * wbody1,
          t4 + inertia1 * wbody0 * wbody2,
          t5 + inertia2 * wbody1 * wbody2))"

text \<open>The loop of \<^verbatim>\<open>compute_vector\<close> (lines 231 to 271).\<close>

definition compute_vector_loop :: "env \<Rightarrow> int \<Rightarrow> Atom \<Rightarrow> vec6" where
  "compute_vector_loop e groupbit a =
     fold (\<lambda>i t. if atom_mask a i AND groupbit \<noteq> 0 then compute_vector_particle e a i t else t)
       [0..<nat (atom_nlocal a)] (0, 0, 0, 0, 0, 0)"

section \<open>The process state and the bias compute\<close>

text \<open>
  What stops a run. \<open>error_one\<close> and \<open>error_all\<close> carry the message of the call of
  \<^verbatim>\<open>error->one\<close> or \<^verbatim>\<open>error->all\<close>; \<open>null_pointer\<close> is a call through
  \<^verbatim>\<open>tbias\<close> while it is null, which is undefined behaviour in C++.
\<close>

datatype error = error_one string | error_all string | null_pointer

text \<open>
  The bias compute is an object of another class derived from \<^verbatim>\<open>Compute\<close>, reached
  through virtual calls. Its state on one process has the type \<open>'b\<close>; the record holds
  the members and virtual functions that this compute uses. A function that the C++
  declares \<^verbatim>\<open>void\<close> returns the state of the object, and the particle store when it
  writes velocities. The bias compute sees the particle store of its process.
\<close>

record 'b Compute =
  bias_tempflag :: "'b \<Rightarrow> int"
  bias_tempbias :: "'b \<Rightarrow> int"
  bias_igroup :: "'b \<Rightarrow> int"
  bias_style :: "'b \<Rightarrow> string"
  bias_invoked_scalar :: "'b \<Rightarrow> int"
  bias_invoked_vector :: "'b \<Rightarrow> int"
  bias_init :: "'b \<Rightarrow> Atom \<Rightarrow> error + 'b"
  bias_compute_scalar :: "'b \<Rightarrow> Atom \<Rightarrow> 'b"
  bias_compute_vector :: "'b \<Rightarrow> Atom \<Rightarrow> 'b"
  bias_remove_bias_all :: "'b \<Rightarrow> Atom \<Rightarrow> 'b \<times> Atom"
  bias_restore_bias_all :: "'b \<Rightarrow> Atom \<Rightarrow> 'b \<times> Atom"
  bias_dof_remove :: "'b \<Rightarrow> Atom \<Rightarrow> int \<Rightarrow> int"
  bias_remove_bias :: "'b \<Rightarrow> Atom \<Rightarrow> int \<Rightarrow> vec3 \<Rightarrow> 'b \<times> vec3"
  bias_restore_bias :: "'b \<Rightarrow> Atom \<Rightarrow> int \<Rightarrow> vec3 \<Rightarrow> 'b \<times> vec3"

text \<open>
  One process of the run: the members of the \<^verbatim>\<open>ComputeTempAsphere\<close> object (those it
  inherits from \<^verbatim>\<open>Compute\<close> included), the particle store and the array
  \<^verbatim>\<open>modify->compute\<close> of the process. The pointer \<^verbatim>\<open>tbias\<close> is \<open>None\<close> when null
  and \<open>Some k\<close> when it holds the address of \<^verbatim>\<open>modify->compute[k]\<close>; \<open>id_bias\<close> is
  the name copied from the command, read only when \<open>tempbias\<close> is not 0.
\<close>

record 'b process =
  igroup :: int
  groupbit :: int
  extra_dof :: int
  dynamic :: int
  dof :: real
  scalar :: double
  vector :: vec6
  invoked_scalar :: int
  invoked_vector :: int
  tempbias :: int
  id_bias :: string
  tbias :: "int option"
  fix_dof :: int
  tfactor :: real
  atom :: Atom
  modify_compute :: "int \<Rightarrow> 'b"

text \<open>
  A call \<^verbatim>\<open>tbias->m()\<close> of a member function that may write the bias object and the
  velocities.
\<close>

definition tbias_call :: "('b \<Rightarrow> Atom \<Rightarrow> 'b \<times> Atom) \<Rightarrow> 'b process \<Rightarrow> error + 'b process" where
  "tbias_call m s =
     (case tbias s of
        None \<Rightarrow> Inl null_pointer
      | Some k \<Rightarrow>
          (case m (modify_compute s k) (atom s) of
             (b', a') \<Rightarrow> Inr (s\<lparr>atom := a', modify_compute := (modify_compute s)(k := b')\<rparr>)))"

section \<open>The reduction over the processes\<close>

text \<open>
  The code runs on every process of the communicator \<^verbatim>\<open>world\<close>, each with its own
  particles. \<^verbatim>\<open>MPI_Allreduce\<close> with \<^verbatim>\<open>MPI_SUM\<close> gives every process the sum of the
  values that all processes pass in. The record holds what the other processes pass
  in, one entry per process: to the reduction of \<open>t\<close> in \<^verbatim>\<open>compute_scalar\<close>, to the
  reduction of \<open>t[6]\<close> in \<^verbatim>\<open>compute_vector\<close>, and to the reduction of \<open>count\<close> in
  \<^verbatim>\<open>dof_compute\<close>. The sum of \<^verbatim>\<open>MPI_DOUBLE\<close> values in \<^verbatim>\<open>compute_scalar\<close> is the
  IEEE sum, taken in the order of the list (MPI leaves the order open; it matters only
  when a partial sum overflows). The sum of \<^verbatim>\<open>MPI_INT\<close> values wraps around.
\<close>

record comm =
  others_t :: "double list"
  others_t6 :: "vec6 list"
  others_count :: "int list"

definition MPI_Allreduce_SUM_double :: "double \<Rightarrow> double list \<Rightarrow> double" where
  "MPI_Allreduce_SUM_double x others = fold (\<lambda>y acc. acc + y) others x"

definition MPI_Allreduce_SUM_int :: "int \<Rightarrow> int list \<Rightarrow> int" where
  "MPI_Allreduce_SUM_int x others = int32 (x + sum_list others)"

definition vec6_add :: "vec6 \<Rightarrow> vec6 \<Rightarrow> vec6" where
  "vec6_add x y =
     (case x of (x0, x1, x2, x3, x4, x5) \<Rightarrow>
      case y of (y0, y1, y2, y3, y4, y5) \<Rightarrow>
        (x0 + y0, x1 + y1, x2 + y2, x3 + y3, x4 + y4, x5 + y5))"

definition MPI_Allreduce_SUM_double6 :: "vec6 \<Rightarrow> vec6 list \<Rightarrow> vec6" where
  "MPI_Allreduce_SUM_double6 x others = fold (\<lambda>y acc. vec6_add acc y) others x"

section \<open>Degrees of freedom\<close>

text \<open>
  The counting loop of \<^verbatim>\<open>dof_compute\<close> (lines 131 to 134): the number of monitored
  particles of this process for which \<^verbatim>\<open>tbias->dof_remove(i)\<close> is not 0. The call
  goes through \<^verbatim>\<open>tbias\<close> for every monitored particle.
\<close>

definition dof_compute_count :: "'b Compute \<Rightarrow> 'b process \<Rightarrow> error + int" where
  "dof_compute_count cls s =
     fold (\<lambda>i r. case r of
                   Inl err \<Rightarrow> Inl err
                 | Inr count \<Rightarrow>
                     if atom_mask (atom s) i AND groupbit s \<noteq> 0
                     then (case tbias s of
                             None \<Rightarrow> Inl null_pointer
                           | Some k \<Rightarrow>
                               if bias_dof_remove cls (modify_compute s k) (atom s) (int i) \<noteq> 0
                               then Inr (int32 (count + 1)) else Inr count)
                     else Inr count)
       [0..<nat (atom_nlocal (atom s))] (Inr 0)"

text \<open>
  \<^verbatim>\<open>ComputeTempAsphere::dof_compute\<close> (lines 114 to 143). \<^verbatim>\<open>natoms\<close> is a
  \<^verbatim>\<open>double\<close>, so that \<^verbatim>\<open>nper*natoms\<close> and \<^verbatim>\<open>tbias->dof_remove(-1) * natoms\<close> are
  products of \<^verbatim>\<open>double\<close>s. \<^verbatim>\<open>count++\<close>, the sum of the counts, \<^verbatim>\<open>nper*count_all\<close>
  and \<^verbatim>\<open>extra_dof + fix_dof\<close> are \<^verbatim>\<open>int\<close> expressions, converted when they are
  subtracted from \<^verbatim>\<open>dof\<close>.
\<close>

definition dof_compute :: "env \<Rightarrow> 'b Compute \<Rightarrow> comm \<Rightarrow> 'b process \<Rightarrow> error + 'b process" where
  "dof_compute e cls cm s =
     (let natoms = group_count e (igroup s);
          nper = (if domain_dimension e = 2 then 3 else 6 :: int);
          dof0 = real_of_int nper * natoms
      in case (if tempbias s = 1 then
                 (case tbias s of
                    None \<Rightarrow> Inl null_pointer
                  | Some k \<Rightarrow>
                      Inr (dof0 - real_of_int (bias_dof_remove cls (modify_compute s k) (atom s) (- 1)) * natoms))
               else if tempbias s = 2 then
                 (case dof_compute_count cls s of
                    Inl err \<Rightarrow> Inl err
                  | Inr count \<Rightarrow>
                      let count_all = MPI_Allreduce_SUM_int count (others_count cm)
                      in Inr (dof0 - real_of_int (int32 (nper * count_all))))
               else Inr dof0) of
           Inl err \<Rightarrow> Inl err
         | Inr dof1 \<Rightarrow>
             let dof2 = dof1 - real_of_int (int32 (extra_dof s + fix_dof s))
             in Inr (s\<lparr>dof := dof2,
                      tfactor := (if dof2 > 0 then force_mvv2e e / (dof2 * force_boltz e) else 0)\<rparr>))"

section \<open>Construction\<close>

text \<open>
  The constructor (lines 37 to 65). \<open>obj\<close> is the object as the constructor of the
  base class \<^verbatim>\<open>Compute\<close>, which is not among the sources, hands it over: it holds
  the group of the command, and a member that no constructor assigns holds whatever
  its memory held. \<open>arg\<close> are the words of the command, and \<open>style_match\<close> tells
  whether \<^verbatim>\<open>atom->style_match("ellipsoid")\<close> finds the atom style. The body assigns
  flags of the base class that no function below reads, then \<open>tempbias\<close> and
  \<open>id_bias\<close> (\<^verbatim>\<open>NULL\<close> is the empty name), and allocates \<open>vector\<close> without
  writing its entries. It does not assign \<^verbatim>\<open>tbias\<close>.
\<close>

definition ComputeTempAsphere :: "bool \<Rightarrow> 'b process \<Rightarrow> string list \<Rightarrow> error + 'b process" where
  "ComputeTempAsphere style_match obj arg =
     (let narg = int (length arg) in
      if narg \<noteq> 3 \<and> narg \<noteq> 4 then Inl (error_all ''Illegal compute temp/asphere command'')
      else
        (let s = (if narg = 4 then obj\<lparr>tempbias := 1, id_bias := arg ! 3\<rparr>
                  else obj\<lparr>tempbias := 0, id_bias := []\<rparr>)
         in if \<not> style_match
            then Inl (error_all ''Compute temp/asphere requires atom style ellipsoid'')
            else Inr s))"

section \<open>Initialisation\<close>

text \<open>
  The first loop of \<^verbatim>\<open>init\<close> (lines 86 to 89): \<^verbatim>\<open>error->one\<close> at the first
  monitored particle of this process without an ellipsoid record.
\<close>

definition init_check_extended :: "int \<Rightarrow> Atom \<Rightarrow> error + unit" where
  "init_check_extended gb a =
     fold (\<lambda>i r. case r of
                   Inl err \<Rightarrow> Inl err
                 | Inr u \<Rightarrow>
                     if atom_mask a i AND gb \<noteq> 0
                     then (if atom_ellipsoid a i < 0
                           then Inl (error_one ''Compute temp/asphere requires extended particles'')
                           else Inr ())
                     else Inr ())
       [0..<nat (atom_nlocal a)] (Inr ())"

text \<open>The block of \<^verbatim>\<open>init\<close> that resolves the bias compute (lines 91 to 104).\<close>

definition init_bias :: "env \<Rightarrow> 'b Compute \<Rightarrow> 'b process \<Rightarrow> error + 'b process" where
  "init_bias e cls s =
     (if tempbias s \<noteq> 0 then
        (let i = modify_find_compute e (id_bias s) in
         if i < 0 then Inl (error_all ''Could not find compute ID for temperature bias'')
         else if bias_tempflag cls (modify_compute s i) = 0
           then Inl (error_all ''Bias compute does not calculate temperature'')
         else if bias_tempbias cls (modify_compute s i) = 0
           then Inl (error_all ''Bias compute does not calculate a velocity bias'')
         else if bias_igroup cls (modify_compute s i) \<noteq> igroup s
           then Inl (error_all ''Bias compute group does not match compute group'')
         else (case bias_init cls (modify_compute s i) (atom s) of
                 Inl err \<Rightarrow> Inl err
               | Inr b' \<Rightarrow>
                   Inr (s\<lparr>tbias := Some i,
                          modify_compute := (modify_compute s)(i := b'),
                          tempbias := (if bias_style cls b' = ''temp/region'' then 2 else 1)\<rparr>)))
      else Inr s)"

text \<open>\<^verbatim>\<open>ComputeTempAsphere::init\<close> (lines 77 to 110).\<close>

definition init :: "env \<Rightarrow> 'b Compute \<Rightarrow> comm \<Rightarrow> 'b process \<Rightarrow> error + 'b process" where
  "init e cls cm s =
     (case init_check_extended (groupbit s) (atom s) of
        Inl err \<Rightarrow> Inl err
      | Inr u \<Rightarrow>
          (case init_bias e cls s of
             Inl err \<Rightarrow> Inl err
           | Inr s1 \<Rightarrow>
               dof_compute e cls cm
                 (s1\<lparr>fix_dof := fold (\<lambda>i acc. acc + modify_fix_dof e i (igroup s1))
                                   [0..<nat (modify_nfix e)] 0\<rparr>)))"

section \<open>The two evaluations\<close>

text \<open>
  The opening of \<^verbatim>\<open>compute_scalar\<close> (lines 149 to 154): the time stamp, and with a
  bias the call of the bias compute's \<^verbatim>\<open>compute_scalar\<close> unless it has run in this
  step, then \<^verbatim>\<open>tbias->remove_bias_all()\<close>.
\<close>

definition compute_scalar_remove :: "env \<Rightarrow> 'b Compute \<Rightarrow> 'b process \<Rightarrow> error + 'b process" where
  "compute_scalar_remove e cls s0 =
     (let s = s0\<lparr>invoked_scalar := update_ntimestep e\<rparr> in
      if tempbias s \<noteq> 0 then
        (case tbias_call (\<lambda>b a. (if bias_invoked_scalar cls b \<noteq> update_ntimestep e
                                  then bias_compute_scalar cls b a else b, a)) s of
           Inl err \<Rightarrow> Inl err
         | Inr s' \<Rightarrow> tbias_call (bias_remove_bias_all cls) s')
      else Inr s)"

text \<open>
  \<^verbatim>\<open>compute_scalar\<close> up to the reduction (lines 149 to 198): the state of the process
  and its local sum \<open>t\<close>, a \<^verbatim>\<open>double\<close>.
\<close>

definition compute_scalar_local :: "env \<Rightarrow> 'b Compute \<Rightarrow> 'b process \<Rightarrow> error + ('b process \<times> double)" where
  "compute_scalar_local e cls s0 =
     (case compute_scalar_remove e cls s0 of
        Inl err \<Rightarrow> Inl err
      | Inr s1 \<Rightarrow>
          (let t = compute_scalar_loop_double e (groupbit s1) (atom s1) in
           (case (if tempbias s1 \<noteq> 0 then tbias_call (bias_restore_bias_all cls) s1 else Inr s1) of
              Inl err \<Rightarrow> Inl err
            | Inr s2 \<Rightarrow> Inr (s2, t))))"

text \<open>
  \<^verbatim>\<open>ComputeTempAsphere::compute_scalar\<close> (lines 147 to 204): the state after the call
  and the value returned, the IEEE product of the reduced sum and the scale factor
  (line 202).
\<close>

definition compute_scalar :: "env \<Rightarrow> 'b Compute \<Rightarrow> comm \<Rightarrow> 'b process \<Rightarrow> error + ('b process \<times> double)" where
  "compute_scalar e cls cm s0 =
     (case compute_scalar_local e cls s0 of
        Inl err \<Rightarrow> Inl err
      | Inr (s2, t) \<Rightarrow>
          (let sc = MPI_Allreduce_SUM_double t (others_t cm) in
           (case (if dynamic s2 \<noteq> 0 \<or> tempbias s2 = 2 then dof_compute e cls cm s2 else Inr s2) of
              Inl err \<Rightarrow> Inl err
            | Inr s3 \<Rightarrow>
                Inr (s3\<lparr>scalar := sc * double_of (tfactor s3)\<rparr>, sc * double_of (tfactor s3)))))"

text \<open>The last loop of \<^verbatim>\<open>compute_vector\<close> (line 276): every entry times \<open>c\<close>.\<close>

definition vec6_scale :: "vec6 \<Rightarrow> real \<Rightarrow> vec6" where
  "vec6_scale x c = (case x of (x0, x1, x2, x3, x4, x5) \<Rightarrow> (x0 * c, x1 * c, x2 * c, x3 * c, x4 * c, x5 * c))"

text \<open>
  The opening of \<^verbatim>\<open>compute_vector\<close> (lines 212 to 217), as in \<^verbatim>\<open>compute_scalar\<close>
  with the bias compute's \<^verbatim>\<open>compute_vector\<close> and \<^verbatim>\<open>invoked_vector\<close>.
\<close>

definition compute_vector_remove :: "env \<Rightarrow> 'b Compute \<Rightarrow> 'b process \<Rightarrow> error + 'b process" where
  "compute_vector_remove e cls s0 =
     (let s = s0\<lparr>invoked_vector := update_ntimestep e\<rparr> in
      if tempbias s \<noteq> 0 then
        (case tbias_call (\<lambda>b a. (if bias_invoked_vector cls b \<noteq> update_ntimestep e
                                  then bias_compute_vector cls b a else b, a)) s of
           Inl err \<Rightarrow> Inl err
         | Inr s' \<Rightarrow> tbias_call (bias_remove_bias_all cls) s')
      else Inr s)"

text \<open>
  \<^verbatim>\<open>compute_vector\<close> up to the reduction (lines 212 to 273): the state of the process
  and its local sums \<open>t[0]\<close> to \<open>t[5]\<close>.
\<close>

definition compute_vector_local :: "env \<Rightarrow> 'b Compute \<Rightarrow> 'b process \<Rightarrow> error + ('b process \<times> vec6)" where
  "compute_vector_local e cls s0 =
     (case compute_vector_remove e cls s0 of
        Inl err \<Rightarrow> Inl err
      | Inr s1 \<Rightarrow>
          (let t = compute_vector_loop e (groupbit s1) (atom s1) in
           (case (if tempbias s1 \<noteq> 0 then tbias_call (bias_restore_bias_all cls) s1 else Inr s1) of
              Inl err \<Rightarrow> Inl err
            | Inr s2 \<Rightarrow> Inr (s2, t))))"

text \<open>\<^verbatim>\<open>ComputeTempAsphere::compute_vector\<close> (lines 208 to 277).\<close>

definition compute_vector :: "env \<Rightarrow> 'b Compute \<Rightarrow> comm \<Rightarrow> 'b process \<Rightarrow> error + 'b process" where
  "compute_vector e cls cm s0 =
     (case compute_vector_local e cls s0 of
        Inl err \<Rightarrow> Inl err
      | Inr (s2, t) \<Rightarrow>
          Inr (s2\<lparr>vector := vec6_scale (MPI_Allreduce_SUM_double6 t (others_t6 cm)) (force_mvv2e e)\<rparr>))"

section \<open>Removing and restoring the bias of one particle\<close>

text \<open>
  \<^verbatim>\<open>ComputeTempAsphere::remove_bias\<close> (lines 283 to 286) and
  \<^verbatim>\<open>ComputeTempAsphere::restore_bias\<close> (lines 293 to 296). The velocity is passed by
  pointer and written in place: the model returns it with the state.
\<close>

definition remove_bias :: "'b Compute \<Rightarrow> 'b process \<Rightarrow> int \<Rightarrow> vec3 \<Rightarrow> 'b process \<times> vec3" where
  "remove_bias cls s i u =
     (case tbias s of
        None \<Rightarrow> (s, u)
      | Some k \<Rightarrow>
          (case bias_remove_bias cls (modify_compute s k) (atom s) i u of
             (b', u') \<Rightarrow> (s\<lparr>modify_compute := (modify_compute s)(k := b')\<rparr>, u')))"

definition restore_bias :: "'b Compute \<Rightarrow> 'b process \<Rightarrow> int \<Rightarrow> vec3 \<Rightarrow> 'b process \<times> vec3" where
  "restore_bias cls s i u =
     (case tbias s of
        None \<Rightarrow> (s, u)
      | Some k \<Rightarrow>
          (case bias_restore_bias cls (modify_compute s k) (atom s) i u of
             (b', u') \<Rightarrow> (s\<lparr>modify_compute := (modify_compute s)(k := b')\<rparr>, u')))"

section \<open>The quantities of the specification\<close>

text \<open>
  The definitions of this section follow the words of the specification, not the
  code; the theorems compare the code with them.
\<close>

definition vec3_add :: "vec3 \<Rightarrow> vec3 \<Rightarrow> vec3" where
  "vec3_add x y = (case x of (x0, x1, x2) \<Rightarrow> case y of (y0, y1, y2) \<Rightarrow> (x0 + y0, x1 + y1, x2 + y2))"

text \<open>The components \<open>xx, yy, zz\<close> of a tensor, their sum, and the components \<open>xy, xz, yz\<close>.\<close>

definition vec6_diag :: "vec6 \<Rightarrow> vec3" where
  "vec6_diag t = (case t of (xx, yy, zz, xy, xz, yz) \<Rightarrow> (xx, yy, zz))"

definition vec6_trace :: "vec6 \<Rightarrow> real" where
  "vec6_trace t = (case t of (xx, yy, zz, xy, xz, yz) \<Rightarrow> xx + yy + zz)"

definition vec6_offdiag :: "vec6 \<Rightarrow> vec3" where
  "vec6_offdiag t = (case t of (xx, yy, zz, xy, xz, yz) \<Rightarrow> (xy, xz, yz))"

text \<open>
  The principal moments of a uniform ellipsoid of mass \<open>m\<close> and semi-axes \<open>(a, b, c)\<close>:
  \<open>Ix = m(b\<^sup>2+c\<^sup>2)/5\<close>, \<open>Iy = m(a\<^sup>2+c\<^sup>2)/5\<close>, \<open>Iz = m(a\<^sup>2+b\<^sup>2)/5\<close>.
\<close>

definition ellipsoid_inertia :: "real \<Rightarrow> vec3 \<Rightarrow> vec3" where
  "ellipsoid_inertia m s =
     (case s of (a, b, c) \<Rightarrow> (m * (b\<^sup>2 + c\<^sup>2) / 5, m * (a\<^sup>2 + c\<^sup>2) / 5, m * (a\<^sup>2 + b\<^sup>2) / 5))"

definition mat3_transpose :: "mat3 \<Rightarrow> mat3" where
  "mat3_transpose m =
     (case m of ((m00, m01, m02), (m10, m11, m12), (m20, m21, m22)) \<Rightarrow>
        ((m00, m10, m20), (m01, m11, m21), (m02, m12, m22)))"

definition mat3_vec :: "mat3 \<Rightarrow> vec3 \<Rightarrow> vec3" where
  "mat3_vec m u =
     (case m of ((m00, m01, m02), (m10, m11, m12), (m20, m21, m22)) \<Rightarrow>
      case u of (u0, u1, u2) \<Rightarrow>
        (m00 * u0 + m01 * u1 + m02 * u2,
         m10 * u0 + m11 * u1 + m12 * u2,
         m20 * u0 + m21 * u1 + m22 * u2))"

text \<open>
  The angular velocity in the body frame: \<open>R\<^sup>t\<cdot>L\<close> divided componentwise by the
  principal moments.
\<close>

definition body_angular_velocity :: "mat3 \<Rightarrow> vec3 \<Rightarrow> vec3 \<Rightarrow> vec3" where
  "body_angular_velocity R L I =
     (case mat3_vec (mat3_transpose R) L of (x, y, z) \<Rightarrow>
      case I of (Ix, Iy, Iz) \<Rightarrow> (x / Ix, y / Iy, z / Iz))"

text \<open>The two quantities for particle \<open>i\<close> of a particle store.\<close>

definition particle_inertia :: "Atom \<Rightarrow> nat \<Rightarrow> vec3" where
  "particle_inertia a i = ellipsoid_inertia (atom_rmass a i) (shape (avec_bonus a (atom_ellipsoid a i)))"

definition particle_wbody :: "env \<Rightarrow> Atom \<Rightarrow> nat \<Rightarrow> vec3" where
  "particle_wbody e a i =
     body_angular_velocity (quat_to_mat e (quat (avec_bonus a (atom_ellipsoid a i))))
       (atom_angmom a i) (particle_inertia a i)"

text \<open>The energies \<open>m(vx\<^sup>2+vy\<^sup>2+vz\<^sup>2)\<close> and \<open>Ix\<cdot>\<omega>x\<^sup>2 + Iy\<cdot>\<omega>y\<^sup>2 + Iz\<cdot>\<omega>z\<^sup>2\<close>.\<close>

definition translational_energy :: "real \<Rightarrow> vec3 \<Rightarrow> real" where
  "translational_energy m u = (case u of (vx, vy, vz) \<Rightarrow> m * (vx\<^sup>2 + vy\<^sup>2 + vz\<^sup>2))"

definition rotational_energy :: "vec3 \<Rightarrow> vec3 \<Rightarrow> real" where
  "rotational_energy I w =
     (case I of (Ix, Iy, Iz) \<Rightarrow> case w of (wx, wy, wz) \<Rightarrow> Ix * wx\<^sup>2 + Iy * wy\<^sup>2 + Iz * wz\<^sup>2)"

text \<open>The diagonal terms of the tensor, translational and rotational.\<close>

definition translational_diag :: "real \<Rightarrow> vec3 \<Rightarrow> vec3" where
  "translational_diag m u = (case u of (vx, vy, vz) \<Rightarrow> (m * vx\<^sup>2, m * vy\<^sup>2, m * vz\<^sup>2))"

definition rotational_diag :: "vec3 \<Rightarrow> vec3 \<Rightarrow> vec3" where
  "rotational_diag I w =
     (case I of (Ix, Iy, Iz) \<Rightarrow> case w of (wx, wy, wz) \<Rightarrow> (Ix * wx\<^sup>2, Iy * wy\<^sup>2, Iz * wz\<^sup>2))"

text \<open>The translational terms \<open>m\<cdot>vx\<cdot>vy\<close>, \<open>m\<cdot>vx\<cdot>vz\<close>, \<open>m\<cdot>vy\<cdot>vz\<close> of \<open>xy, xz, yz\<close>.\<close>

definition translational_cross :: "real \<Rightarrow> vec3 \<Rightarrow> vec3" where
  "translational_cross m u = (case u of (vx, vy, vz) \<Rightarrow> (m * vx * vy, m * vx * vz, m * vy * vz))"

text \<open>
  The rotational cross terms as the specification words them, for \<open>xy, xz, yz\<close> in
  this order: \<open>Ix\<cdot>\<omega>x\<cdot>\<omega>y\<close>, \<open>Iy\<cdot>\<omega>y\<cdot>\<omega>z\<close>, \<open>Iz\<cdot>\<omega>z\<cdot>\<omega>x\<close>.
\<close>

definition rotational_cross_claimed :: "vec3 \<Rightarrow> vec3 \<Rightarrow> vec3" where
  "rotational_cross_claimed I w =
     (case I of (Ix, Iy, Iz) \<Rightarrow> case w of (wx, wy, wz) \<Rightarrow> (Ix * wx * wy, Iy * wy * wz, Iz * wz * wx))"

text \<open>
  The rotational cross terms with the pairs of the components they are added to:
  \<open>Ix\<cdot>\<omega>x\<cdot>\<omega>y\<close> for \<open>xy\<close>, \<open>Iy\<cdot>\<omega>x\<cdot>\<omega>z\<close> for \<open>xz\<close>, \<open>Iz\<cdot>\<omega>y\<cdot>\<omega>z\<close> for \<open>yz\<close>.
\<close>

definition rotational_cross :: "vec3 \<Rightarrow> vec3 \<Rightarrow> vec3" where
  "rotational_cross I w =
     (case I of (Ix, Iy, Iz) \<Rightarrow> case w of (wx, wy, wz) \<Rightarrow> (Ix * wx * wy, Iy * wx * wz, Iz * wy * wz))"

text \<open>Particle \<open>i\<close> of a particle store belongs to the group with the bit \<open>gb\<close>.\<close>

definition monitored :: "int \<Rightarrow> Atom \<Rightarrow> nat \<Rightarrow> bool" where
  "monitored gb a i = (atom_mask a i AND gb \<noteq> 0)"

text \<open>
  The number of monitored particles of a process for which the bias compute \<open>b\<close>
  answers \<^verbatim>\<open>dof_remove(i)\<close> with a value other than 0.
\<close>

definition dof_remove_count :: "'b Compute \<Rightarrow> 'b \<Rightarrow> int \<Rightarrow> Atom \<Rightarrow> int" where
  "dof_remove_count cls b gb a =
     int (length (filter (\<lambda>i. monitored gb a i \<and> bias_dof_remove cls b a (int i) \<noteq> 0)
                    [0..<nat (atom_nlocal a)]))"

text \<open>
  The degrees of freedom as the specification counts them, \<open>b\<close> being the bias
  compute: \<open>nper \<times> N\<close>, with \<open>nper\<close> 3 in two dimensions and 6 otherwise and \<open>N\<close> the
  particle count of the group; less the global answer of the bias times \<open>N\<close> for a
  bias of the global kind (\<open>tempbias = 1\<close>), or \<open>nper\<close> times the sum over all
  processes of the count above for a bias of the region kind (\<open>tempbias = 2\<close>); less
  the extra degrees of freedom and those of the fixes.
\<close>

definition dof_expected :: "env \<Rightarrow> 'b Compute \<Rightarrow> comm \<Rightarrow> 'b process \<Rightarrow> 'b \<Rightarrow> real" where
  "dof_expected e cls cm s b =
     (let nper = (if domain_dimension e = 2 then 3 else 6);
          N = group_count e (igroup s)
      in nper * N
         - (if tempbias s = 1 then real_of_int (bias_dof_remove cls b (atom s) (- 1)) * N
            else if tempbias s = 2
              then nper * real_of_int (dof_remove_count cls b (groupbit s) (atom s) + sum_list (others_count cm))
            else 0)
         - real_of_int (extra_dof s) - real_of_int (fix_dof s))"

text \<open>
  The \<^verbatim>\<open>int\<close> expressions of \<^verbatim>\<open>dof_compute\<close> stay within 32 bits: the number of
  particles of the process, the sum of the extra degrees of freedom and those of the
  fixes and, for a bias of the region kind, the count summed over the processes and
  its product with \<open>nper\<close>.
\<close>

definition fits_int32 :: "int \<Rightarrow> bool" where
  "fits_int32 x = (- 2147483648 \<le> x \<and> x < 2147483648)"

definition dof_ints_fit :: "env \<Rightarrow> 'b Compute \<Rightarrow> comm \<Rightarrow> 'b process \<Rightarrow> 'b \<Rightarrow> bool" where
  "dof_ints_fit e cls cm s b =
     (fits_int32 (extra_dof s + fix_dof s)
      \<and> (tempbias s = 2 \<longrightarrow>
           fits_int32 (atom_nlocal (atom s))
           \<and> fits_int32 (dof_remove_count cls b (groupbit s) (atom s) + sum_list (others_count cm))
           \<and> fits_int32 ((if domain_dimension e = 2 then 3 else 6)
                          * (dof_remove_count cls b (groupbit s) (atom s) + sum_list (others_count cm)))))"

text \<open>
  A \<^verbatim>\<open>double\<close> is finite: neither an infinity nor NaN. A real is representable:
  a \<^verbatim>\<open>double\<close> holds it without overflow.
\<close>

fun is_finite :: "double \<Rightarrow> bool" where
  "is_finite (Finite x) = True"
| "is_finite d = False"

definition representable :: "real \<Rightarrow> bool" where
  "representable x = (\<bar>x\<bar> < overflow_threshold)"

text \<open>
  The bias object as it stands when its \<^verbatim>\<open>remove_bias_all\<close> is called: after its own
  \<^verbatim>\<open>compute_scalar\<close> (or \<^verbatim>\<open>compute_vector\<close>) if that had not run in this step. Then
  the bias object and the particle store after \<^verbatim>\<open>remove_bias_all\<close>, and after the
  \<^verbatim>\<open>restore_bias_all\<close> that follows.
\<close>

definition bias_before_remove_scalar :: "env \<Rightarrow> 'b Compute \<Rightarrow> 'b process \<Rightarrow> int \<Rightarrow> 'b" where
  "bias_before_remove_scalar e cls s k =
     (if bias_invoked_scalar cls (modify_compute s k) \<noteq> update_ntimestep e
      then bias_compute_scalar cls (modify_compute s k) (atom s) else modify_compute s k)"

definition bias_before_remove_vector :: "env \<Rightarrow> 'b Compute \<Rightarrow> 'b process \<Rightarrow> int \<Rightarrow> 'b" where
  "bias_before_remove_vector e cls s k =
     (if bias_invoked_vector cls (modify_compute s k) \<noteq> update_ntimestep e
      then bias_compute_vector cls (modify_compute s k) (atom s) else modify_compute s k)"

definition removed_scalar :: "env \<Rightarrow> 'b Compute \<Rightarrow> 'b process \<Rightarrow> int \<Rightarrow> 'b \<times> Atom" where
  "removed_scalar e cls s k = bias_remove_bias_all cls (bias_before_remove_scalar e cls s k) (atom s)"

definition removed_vector :: "env \<Rightarrow> 'b Compute \<Rightarrow> 'b process \<Rightarrow> int \<Rightarrow> 'b \<times> Atom" where
  "removed_vector e cls s k = bias_remove_bias_all cls (bias_before_remove_vector e cls s k) (atom s)"

definition restored :: "'b Compute \<Rightarrow> 'b \<times> Atom \<Rightarrow> 'b \<times> Atom" where
  "restored cls x = bias_restore_bias_all cls (fst x) (snd x)"

text \<open>
  The temperature scale factor that belongs to a number of degrees of freedom: the
  units factor divided by their product with the Boltzmann constant, and 0 when
  there are none.
\<close>

definition tfactor_of :: "env \<Rightarrow> real \<Rightarrow> real" where
  "tfactor_of e d = (if d > 0 then force_mvv2e e / (d * force_boltz e) else 0)"

text \<open>
  The violations that stop \<^verbatim>\<open>init\<close>. A process has a point particle in the group;
  or a bias is named and the name is not resolved, or the compute it resolves to
  does not calculate a temperature, or does not calculate a velocity bias, or belongs
  to another group, or raises an error in its own \<^verbatim>\<open>init\<close>.
\<close>

definition has_point_particle :: "int \<Rightarrow> Atom \<Rightarrow> bool" where
  "has_point_particle gb a =
     (\<exists>i \<in> set [0..<nat (atom_nlocal a)]. monitored gb a i \<and> atom_ellipsoid a i < 0)"

definition resolved_bias :: "env \<Rightarrow> 'b process \<Rightarrow> 'b" where
  "resolved_bias e s = modify_compute s (modify_find_compute e (id_bias s))"

definition init_violation :: "env \<Rightarrow> 'b Compute \<Rightarrow> 'b process \<Rightarrow> bool" where
  "init_violation e cls s =
     (has_point_particle (groupbit s) (atom s)
      \<or> (tempbias s \<noteq> 0 \<and>
         (modify_find_compute e (id_bias s) < 0
          \<or> bias_tempflag cls (resolved_bias e s) = 0
          \<or> bias_tempbias cls (resolved_bias e s) = 0
          \<or> bias_igroup cls (resolved_bias e s) \<noteq> igroup s
          \<or> isl (bias_init cls (resolved_bias e s) (atom s)))))"

text \<open>
  The violations as the specification lists them: the resolved compute is at fault
  when it calculates neither a temperature nor a velocity bias.
\<close>

definition init_violation_claimed :: "env \<Rightarrow> 'b Compute \<Rightarrow> 'b process \<Rightarrow> bool" where
  "init_violation_claimed e cls s =
     (has_point_particle (groupbit s) (atom s)
      \<or> (tempbias s \<noteq> 0 \<and>
         (modify_find_compute e (id_bias s) < 0
          \<or> (bias_tempflag cls (resolved_bias e s) = 0 \<and> bias_tempbias cls (resolved_bias e s) = 0)
          \<or> bias_igroup cls (resolved_bias e s) \<noteq> igroup s)))"

section \<open>A worked configuration\<close>

text \<open>
  The concrete inputs of the examples. \<open>ex_quat_to_mat\<close> instantiates the parameter
  \<open>quat_to_mat\<close> with the rotation matrix of a unit quaternion \<open>(w, i, j, k)\<close>.
\<close>

definition ex_quat_to_mat :: "quaternion \<Rightarrow> mat3" where
  "ex_quat_to_mat q =
     (case q of (w, i, j, k) \<Rightarrow>
        ((w * w + i * i - j * j - k * k, 2 * i * j - 2 * k * w, 2 * j * w + 2 * i * k),
         (2 * i * j + 2 * k * w, w * w - i * i + j * j - k * k, 2 * j * k - 2 * i * w),
         (2 * i * k - 2 * j * w, 2 * j * k + 2 * i * w, w * w - i * i - j * j + k * k)))"

text \<open>
  Three dimensions, five particles of group 1 in the whole run, two fixes that remove
  3 and 1 degrees of freedom, and three computes registered under the names
  \<open>vb\<close>, \<open>reg\<close> and \<open>plain\<close>.
\<close>

definition ex_env :: env where
  "ex_env =
     \<lparr>update_ntimestep = 100, force_mvv2e = 2, force_boltz = 1 / 13, domain_dimension = 3,
      group_count = (\<lambda>g. if g = 1 then 5 else 0),
      modify_nfix = 2,
      modify_fix_dof = (\<lambda>i g. if i = 0 then 3 else 1),
      modify_find_compute =
        (\<lambda>n. if n = ''vb'' then 0 else if n = ''reg'' then 1 else if n = ''plain'' then 2 else - 1),
      quat_to_mat = ex_quat_to_mat\<rparr>"

text \<open>
  The particles of this process: particles 0 and 1 are ellipsoids of the group with
  bit 1, particle 2 is a point particle outside the group.
\<close>

definition ex_atom :: Atom where
  "ex_atom =
     \<lparr>atom_nlocal = 3,
      atom_mask = (\<lambda>i. if i = 0 then 1 else if i = 1 then 3 else 2),
      atom_ellipsoid = (\<lambda>i. if i = 0 then 0 else if i = 1 then 1 else - 1),
      atom_v = (\<lambda>i. if i = 0 then (0, 0, 0) else if i = 1 then (1, 2, 3) else (7, 7, 7)),
      atom_angmom = (\<lambda>i. if i = 0 then (2, 4, 6) else if i = 1 then (26, 40, - 30) else (0, 0, 0)),
      atom_rmass = (\<lambda>i. if i = 0 then 5 else if i = 1 then 10 else 1),
      avec_bonus = (\<lambda>k. if k = 0 then \<lparr>shape = (1, 1, 1), quat = (1, 0, 0, 0)\<rparr>
                         else \<lparr>shape = (1, 2, 3), quat = (0, 1, 0, 0)\<rparr>)\<rparr>"

text \<open>
  A bias compute for the examples: it subtracts the constant velocity \<open>xb_vbias\<close> from
  the particles of the group with bit 1, reports \<open>xb_dof_global\<close> for the whole group
  and 1 for the particles listed in \<open>xb_outside\<close>, and keeps the list of the calls it
  has received.
\<close>

record ex_bias =
  xb_tempflag :: int
  xb_tempbias :: int
  xb_igroup :: int
  xb_style :: string
  xb_invoked_scalar :: int
  xb_invoked_vector :: int
  xb_vbias :: vec3
  xb_dof_global :: int
  xb_outside :: "int list"
  xb_calls :: "string list"

definition vec3_sub :: "vec3 \<Rightarrow> vec3 \<Rightarrow> vec3" where
  "vec3_sub x y = (case x of (x0, x1, x2) \<Rightarrow> case y of (y0, y1, y2) \<Rightarrow> (x0 - y0, x1 - y1, x2 - y2))"

definition ex_called :: "string \<Rightarrow> ex_bias \<Rightarrow> ex_bias" where
  "ex_called n b = b\<lparr>xb_calls := xb_calls b @ [n]\<rparr>"

definition ex_cls :: "ex_bias Compute" where
  "ex_cls =
     \<lparr>bias_tempflag = xb_tempflag,
      bias_tempbias = xb_tempbias,
      bias_igroup = xb_igroup,
      bias_style = xb_style,
      bias_invoked_scalar = xb_invoked_scalar,
      bias_invoked_vector = xb_invoked_vector,
      bias_init = (\<lambda>b a. Inr (ex_called ''init'' b)),
      bias_compute_scalar = (\<lambda>b a. ex_called ''compute_scalar'' (b\<lparr>xb_invoked_scalar := 100\<rparr>)),
      bias_compute_vector = (\<lambda>b a. ex_called ''compute_vector'' (b\<lparr>xb_invoked_vector := 100\<rparr>)),
      bias_remove_bias_all =
        (\<lambda>b a. (ex_called ''remove_bias_all'' b,
                 a\<lparr>atom_v := (\<lambda>i. if atom_mask a i AND 1 \<noteq> 0
                                    then vec3_sub (atom_v a i) (xb_vbias b) else atom_v a i)\<rparr>)),
      bias_restore_bias_all =
        (\<lambda>b a. (ex_called ''restore_bias_all'' b,
                 a\<lparr>atom_v := (\<lambda>i. if atom_mask a i AND 1 \<noteq> 0
                                    then vec3_add (atom_v a i) (xb_vbias b) else atom_v a i)\<rparr>)),
      bias_dof_remove =
        (\<lambda>b a i. if i < 0 then xb_dof_global b else if i \<in> set (xb_outside b) then 1 else 0),
      bias_remove_bias = (\<lambda>b a i u. (ex_called ''remove_bias'' b, vec3_sub u (xb_vbias b))),
      bias_restore_bias = (\<lambda>b a i u. (ex_called ''restore_bias'' b, vec3_add u (xb_vbias b)))\<rparr>"

text \<open>
  The three registered computes: a bias over the whole group, a bias of style
  \<^verbatim>\<open>temp/region\<close> with particle 1 outside its region, and a compute that calculates a
  temperature but no velocity bias.
\<close>

definition ex_bias_global :: ex_bias where
  "ex_bias_global =
     \<lparr>xb_tempflag = 1, xb_tempbias = 1, xb_igroup = 1, xb_style = ''temp/partial'',
      xb_invoked_scalar = 0, xb_invoked_vector = 0, xb_vbias = (1, 2, 3),
      xb_dof_global = 1, xb_outside = [], xb_calls = []\<rparr>"

definition ex_bias_region :: ex_bias where
  "ex_bias_region =
     \<lparr>xb_tempflag = 1, xb_tempbias = 1, xb_igroup = 1, xb_style = ''temp/region'',
      xb_invoked_scalar = 0, xb_invoked_vector = 0, xb_vbias = (1, 2, 3),
      xb_dof_global = 0, xb_outside = [1], xb_calls = []\<rparr>"

definition ex_bias_plain :: ex_bias where
  "ex_bias_plain =
     \<lparr>xb_tempflag = 1, xb_tempbias = 0, xb_igroup = 1, xb_style = ''temp'',
      xb_invoked_scalar = 0, xb_invoked_vector = 0, xb_vbias = (0, 0, 0),
      xb_dof_global = 0, xb_outside = [], xb_calls = []\<rparr>"

text \<open>
  The process before \<^verbatim>\<open>init\<close>, constructed without a bias, in memory that held zeros:
  the pointer \<^verbatim>\<open>tbias\<close> is null.
\<close>

definition ex_process :: "ex_bias process" where
  "ex_process =
     \<lparr>igroup = 1, groupbit = 1, extra_dof = 0, dynamic = 0, dof = 0, scalar = Finite 0,
      vector = (0, 0, 0, 0, 0, 0), invoked_scalar = - 1, invoked_vector = - 1,
      tempbias = 0, id_bias = [], tbias = None, fix_dof = 0, tfactor = 0,
      atom = ex_atom,
      modify_compute = (\<lambda>k. if k = 0 then ex_bias_global
                              else if k = 1 then ex_bias_region else ex_bias_plain)\<rparr>"

text \<open>
  The particles of the one other process of the run, as they stand while the sums are
  accumulated: three spheres of the group that do not rotate.
\<close>

definition ex_other_atom :: Atom where
  "ex_other_atom =
     \<lparr>atom_nlocal = 3,
      atom_mask = (\<lambda>i. 1),
      atom_ellipsoid = (\<lambda>i. 0),
      atom_v = (\<lambda>i. if i = 0 then (1, 0, 0) else if i = 1 then (0, 1, 0) else (0, 0, 2)),
      atom_angmom = (\<lambda>i. (0, 0, 0)),
      atom_rmass = (\<lambda>i. 2),
      avec_bonus = (\<lambda>k. \<lparr>shape = (1, 1, 1), quat = (1, 0, 0, 0)\<rparr>)\<rparr>"

text \<open>
  What the other process contributes to the three reductions: its sums over these
  particles, and two particles outside the region of the bias \<open>reg\<close>.
\<close>

definition ex_comm :: comm where
  "ex_comm = \<lparr>others_t = [Finite 12], others_t6 = [(2, 2, 8, 0, 0, 0)], others_count = [2]\<rparr>"

text \<open>
  The process after \<^verbatim>\<open>init\<close> with the bias \<open>reg\<close>: the bias is of the region kind,
  the fixes remove 4 degrees of freedom, and 8 are left.
\<close>

definition ex_region :: "ex_bias process" where
  "ex_region = ex_process\<lparr>tempbias := 2, id_bias := ''reg'', tbias := Some 1, fix_dof := 4,
                           dof := 8, tfactor := 13 / 4\<rparr>"

text \<open>
  The process after \<^verbatim>\<open>init\<close> without a bias, dynamic and with 40 extra degrees of
  freedom, when the particles of the process move at \<open>10\<^sup>2\<^sup>0\<^sup>0\<close> along \<open>x\<close>: the
  squares of their velocities are beyond the largest \<^verbatim>\<open>double\<close>.
\<close>

definition ex_fast :: "ex_bias process" where
  "ex_fast = ex_process\<lparr>dynamic := 1, extra_dof := 40,
                         atom := ex_atom\<lparr>atom_v := (\<lambda>i. (10 ^ 200, 0, 0))\<rparr>\<rparr>"

text \<open>
  A bias compute that takes the velocity of particle 0 as its bias whenever it is
  evaluated, and the process of \<open>ex_region\<close> at a moment when the bias \<open>reg\<close> has
  run its \<^verbatim>\<open>compute_scalar\<close> in this time step, when particle 0 moved at
  \<open>(1, 2, 3)\<close>, and not its \<^verbatim>\<open>compute_vector\<close>; particle 0 is at rest now.
\<close>

definition ex_cls_first :: "ex_bias Compute" where
  "ex_cls_first =
     ex_cls\<lparr>bias_compute_scalar :=
               (\<lambda>b a. ex_called ''compute_scalar'' (b\<lparr>xb_invoked_scalar := 100, xb_vbias := atom_v a 0\<rparr>)),
            bias_compute_vector :=
               (\<lambda>b a. ex_called ''compute_vector'' (b\<lparr>xb_invoked_vector := 100, xb_vbias := atom_v a 0\<rparr>))\<rparr>"

definition ex_stale :: "ex_bias process" where
  "ex_stale = ex_region\<lparr>modify_compute :=
                (modify_compute ex_region)(1 := ex_bias_region\<lparr>xb_invoked_scalar := 100\<rparr>)\<rparr>"

text \<open>
  The object that the constructor receives for the command
  \<^verbatim>\<open>compute T all temp/asphere\<close>, which names no bias: the base class has stored
  the group, and the memory of \<^verbatim>\<open>tbias\<close> holds the address of the compute \<open>vb\<close>.
\<close>

definition ex_object :: "ex_bias process" where
  "ex_object = ex_process\<lparr>tempbias := 5, id_bias := ''junk'', tbias := Some 0\<rparr>"

text \<open>The same object after the constructor and after \<^verbatim>\<open>init\<close>.\<close>

definition ex_constructed :: "ex_bias process" where
  "ex_constructed = ex_object\<lparr>tempbias := 0, id_bias := []\<rparr>"

definition ex_nobias :: "ex_bias process" where
  "ex_nobias = ex_constructed\<lparr>fix_dof := 4, dof := 26, tfactor := 1\<rparr>"

section \<open>Auxiliary facts\<close>

text \<open>The definitions that an evaluation of the worked configuration unfolds.\<close>

lemmas ex_defs = ex_env_def ex_atom_def ex_cls_def ex_process_def ex_comm_def ex_bias_global_def
  ex_bias_region_def ex_bias_plain_def ex_quat_to_mat_def ex_called_def vec3_sub_def vec3_add_def

lemmas code_defs = compute_scalar_def compute_scalar_local_def compute_scalar_remove_def
  compute_vector_def compute_vector_local_def compute_vector_remove_def tbias_call_def
  compute_scalar_loop_def compute_scalar_particle_def compute_vector_loop_def
  compute_vector_particle_def transpose_matvec_def dof_compute_def dof_compute_count_def
  MPI_Allreduce_SUM_double_def MPI_Allreduce_SUM_int_def MPI_Allreduce_SUM_double6_def
  vec6_add_def vec6_scale_def int32_def Let_def

lemmas spec_defs = removed_scalar_def removed_vector_def restored_def bias_before_remove_scalar_def
  bias_before_remove_vector_def

subsection \<open>The trace of the tensor accumulators\<close>

text \<open>
  After each particle, and so after the loops and after the reductions, the sum of
  the first three accumulators of \<^verbatim>\<open>compute_vector\<close> is the accumulator of
  \<^verbatim>\<open>compute_scalar\<close>.
\<close>

lemma trace_particle: "vec6_trace (compute_vector_particle e a i t) = compute_scalar_particle e a i (vec6_trace t)"
  unfolding compute_vector_particle_def compute_scalar_particle_def vec6_trace_def
  by (simp add: Let_def split: prod.splits) (simp add: algebra_simps)

lemma trace_fold: "vec6_trace t6 = t \<Longrightarrow>
  vec6_trace (fold (\<lambda>i t. if atom_mask a i AND gb \<noteq> 0 then compute_vector_particle e a i t else t) xs t6)
  = fold (\<lambda>i t. if atom_mask a i AND gb \<noteq> 0 then compute_scalar_particle e a i t else t) xs t"
  by (induction xs arbitrary: t6 t) (simp_all add: trace_particle)

lemma trace_loop: "vec6_trace (compute_vector_loop e gb a) = compute_scalar_loop e gb a"
  unfolding compute_vector_loop_def compute_scalar_loop_def
  by (rule trace_fold) (simp add: vec6_trace_def)

lemma trace_add: "vec6_trace (vec6_add x y) = vec6_trace x + vec6_trace y"
  by (simp add: vec6_trace_def vec6_add_def split: prod.splits)

lemma trace_scale: "vec6_trace (vec6_scale x c) = vec6_trace x * c"
  by (simp add: vec6_trace_def vec6_scale_def algebra_simps split: prod.splits)

lemma trace_allreduce:
  "vec6_trace (MPI_Allreduce_SUM_double6 x ys) = vec6_trace x + sum_list (map vec6_trace ys)"
  unfolding MPI_Allreduce_SUM_double6_def
  by (induction ys arbitrary: x) (simp_all add: trace_add)

subsection \<open>The arithmetic of \<^verbatim>\<open>double\<close>\<close>

text \<open>
  A finite sum, product or quotient has finite operands and is the sum, product or
  quotient of their values; the divisor of a finite quotient is not zero unless it is
  an infinity. Hence the loop of \<^verbatim>\<open>compute_scalar\<close> and the reduction, when their
  result is finite, return the value of the loop over the reals and the sum of the
  values.
\<close>

lemma double_add_Finite: "a + b = Finite z \<Longrightarrow> \<exists>x y. a = Finite x \<and> b = Finite y \<and> z = x + y"
  unfolding plus_double_def
  by (cases a; cases b) (auto simp: double_of_def split: if_splits)

lemma double_mul_Finite: "a * b = Finite z \<Longrightarrow> \<exists>x y. a = Finite x \<and> b = Finite y \<and> z = x * y"
  unfolding times_double_def
  by (cases a; cases b) (auto simp: double_of_def double_inf_def split: if_splits)

lemma double_div_Finite:
  "a / b = Finite z \<Longrightarrow> b = Finite y \<Longrightarrow> \<exists>x. a = Finite x \<and> y \<noteq> 0 \<and> z = x / y"
  unfolding divide_double_def
  by (cases a) (auto simp: double_of_def double_inf_def split: if_splits)

lemma scalar_particle_exact:
  assumes "compute_scalar_particle_double e a i t = Finite r"
  shows "\<exists>x. t = Finite x \<and> r = compute_scalar_particle e a i x"
proof -
  obtain s0 s1 s2 where sh: "shape (avec_bonus a (atom_ellipsoid a i)) = (s0, s1, s2)"
    by (cases "shape (avec_bonus a (atom_ellipsoid a i))") auto
  obtain v0 v1 v2 where v: "atom_v a i = (v0, v1, v2)"
    by (cases "atom_v a i") auto
  obtain l0 l1 l2 where l: "atom_angmom a i = (l0, l1, l2)"
    by (cases "atom_angmom a i") auto
  obtain r00 r01 r02 r10 r11 r12 r20 r21 r22 where
    rt: "quat_to_mat e (quat (avec_bonus a (atom_ellipsoid a i))) =
          ((r00, r01, r02), (r10, r11, r12), (r20, r21, r22))"
    by (cases "quat_to_mat e (quat (avec_bonus a (atom_ellipsoid a i)))") auto
  define m where "m = atom_rmass a i"
  define I0 where "I0 = Finite m * (Finite s1 * Finite s1 + Finite s2 * Finite s2) / Finite 5"
  define I1 where "I1 = Finite m * (Finite s0 * Finite s0 + Finite s2 * Finite s2) / Finite 5"
  define I2 where "I2 = Finite m * (Finite s0 * Finite s0 + Finite s1 * Finite s1) / Finite 5"
  define w0 where "w0 = Finite r00 * Finite l0 + Finite r10 * Finite l1 + Finite r20 * Finite l2"
  define w1 where "w1 = Finite r01 * Finite l0 + Finite r11 * Finite l1 + Finite r21 * Finite l2"
  define w2 where "w2 = Finite r02 * Finite l0 + Finite r12 * Finite l1 + Finite r22 * Finite l2"
  define t1 where "t1 = t + (Finite v0 * Finite v0 + Finite v1 * Finite v1 + Finite v2 * Finite v2) * Finite m"
  from assms
  have fin: "t1 + (I0 * (w0 / I0) * (w0 / I0) + I1 * (w1 / I1) * (w1 / I1) + I2 * (w2 / I2) * (w2 / I2))
               = Finite r"
    unfolding compute_scalar_particle_double_def sh v l rt vec3_double_def mat3_double_def
      transpose_matvec_def Let_def prod.case I0_def I1_def I2_def w0_def w1_def w2_def t1_def m_def
    by simp
  from double_add_Finite[OF fin] obtain x1 rr where t1f: "t1 = Finite x1"
    and rotf: "I0 * (w0 / I0) * (w0 / I0) + I1 * (w1 / I1) * (w1 / I1) + I2 * (w2 / I2) * (w2 / I2) = Finite rr"
    and r: "r = x1 + rr" by blast
  from double_add_Finite[OF rotf] obtain a01 a2 where
    a01: "I0 * (w0 / I0) * (w0 / I0) + I1 * (w1 / I1) * (w1 / I1) = Finite a01"
    and a2: "I2 * (w2 / I2) * (w2 / I2) = Finite a2" and rr: "rr = a01 + a2" by blast
  from double_add_Finite[OF a01] obtain a0 a1 where a0: "I0 * (w0 / I0) * (w0 / I0) = Finite a0"
    and a1: "I1 * (w1 / I1) * (w1 / I1) = Finite a1" and a01': "a01 = a0 + a1" by blast
  have rot: "\<exists>i0 ww. I = Finite i0 \<and> w = Finite ww \<and> i0 \<noteq> 0 \<and> z = i0 * (ww / i0) * (ww / i0)"
    if "I * (w / I) * (w / I) = Finite z" for I w z
  proof -
    from double_mul_Finite[OF that] obtain p q where p: "I * (w / I) = Finite p" and q: "w / I = Finite q"
      and z: "z = p * q" by blast
    from double_mul_Finite[OF p] q obtain i0 where i0: "I = Finite i0" and p': "p = i0 * q" by auto
    from double_div_Finite[OF q i0] obtain ww where "w = Finite ww" "i0 \<noteq> 0" "q = ww / i0" by blast
    with i0 p' z show ?thesis by simp
  qed
  from rot[OF a0] rot[OF a1] rot[OF a2] obtain i0 ww0 i1 ww1 i2 ww2 where
    I: "I0 = Finite i0" "I1 = Finite i1" "I2 = Finite i2"
    and W: "w0 = Finite ww0" "w1 = Finite ww1" "w2 = Finite ww2"
    and A: "a0 = i0 * (ww0 / i0) * (ww0 / i0)" "a1 = i1 * (ww1 / i1) * (ww1 / i1)"
      "a2 = i2 * (ww2 / i2) * (ww2 / i2)"
    by blast
  have dot: "z = a * x + b * y + c * u"
    if "Finite a * Finite x + Finite b * Finite y + Finite c * Finite u = Finite z" for a b c x y u z
  proof -
    from double_add_Finite[OF that] obtain p q where p: "Finite a * Finite x + Finite b * Finite y = Finite p"
      and q: "Finite c * Finite u = Finite q" and z: "z = p + q" by blast
    from double_add_Finite[OF p] obtain p1 p2 where "Finite a * Finite x = Finite p1"
      "Finite b * Finite y = Finite p2" "p = p1 + p2" by blast
    with double_mul_Finite[of "Finite a" "Finite x" p1] double_mul_Finite[of "Finite b" "Finite y" p2]
      double_mul_Finite[OF q] z
    show ?thesis by auto
  qed
  have inertia: "z = m * (x * x + y * y) / 5"
    if "Finite m * (Finite x * Finite x + Finite y * Finite y) / Finite 5 = Finite z" for x y z
  proof -
    from double_div_Finite[OF that refl] obtain n where
      n: "Finite m * (Finite x * Finite x + Finite y * Finite y) = Finite n" and z: "z = n / 5" by blast
    from double_mul_Finite[OF n] obtain ss where ss: "Finite x * Finite x + Finite y * Finite y = Finite ss"
      and n': "n = m * ss" by auto
    from double_add_Finite[OF ss] obtain xx yy where "Finite x * Finite x = Finite xx"
      "Finite y * Finite y = Finite yy" "ss = xx + yy" by blast
    with double_mul_Finite[of "Finite x" "Finite x" xx] double_mul_Finite[of "Finite y" "Finite y" yy]
    have "ss = x * x + y * y" by auto
    with z n' show ?thesis by simp
  qed
  from inertia[OF I(1)[unfolded I0_def]] inertia[OF I(2)[unfolded I1_def]] inertia[OF I(3)[unfolded I2_def]]
  have Iv: "i0 = m * (s1 * s1 + s2 * s2) / 5" "i1 = m * (s0 * s0 + s2 * s2) / 5"
    "i2 = m * (s0 * s0 + s1 * s1) / 5"
    by simp_all
  from dot[OF W(1)[unfolded w0_def]] dot[OF W(2)[unfolded w1_def]] dot[OF W(3)[unfolded w2_def]]
  have Wv: "ww0 = r00 * l0 + r10 * l1 + r20 * l2" "ww1 = r01 * l0 + r11 * l1 + r21 * l2"
    "ww2 = r02 * l0 + r12 * l1 + r22 * l2"
    by simp_all
  from double_add_Finite[OF t1f[unfolded t1_def]] obtain x tr where x: "t = Finite x"
    and tr: "(Finite v0 * Finite v0 + Finite v1 * Finite v1 + Finite v2 * Finite v2) * Finite m = Finite tr"
    and x1: "x1 = x + tr" by blast
  from double_mul_Finite[OF tr] obtain vv where
    vv: "Finite v0 * Finite v0 + Finite v1 * Finite v1 + Finite v2 * Finite v2 = Finite vv"
    and tr': "tr = vv * m" by auto
  from dot[OF vv] have "vv = v0 * v0 + v1 * v1 + v2 * v2" .
  with x x1 tr' r rr a01' A Iv Wv
  have "r = compute_scalar_particle e a i x"
    unfolding compute_scalar_particle_def sh v l rt transpose_matvec_def Let_def prod.case m_def
    by simp
  with x show ?thesis by blast
qed

lemma scalar_fold_exact:
  "fold (\<lambda>i t. if atom_mask a i AND gb \<noteq> 0 then compute_scalar_particle_double e a i t else t) xs t
     = Finite r \<Longrightarrow>
   \<exists>x. t = Finite x
      \<and> r = fold (\<lambda>i t. if atom_mask a i AND gb \<noteq> 0 then compute_scalar_particle e a i t else t) xs x"
proof (induction xs arbitrary: t)
  case Nil
  then show ?case by simp
next
  case (Cons y ys)
  from Cons.prems have
    "fold (\<lambda>i t. if atom_mask a i AND gb \<noteq> 0 then compute_scalar_particle_double e a i t else t) ys
       (if atom_mask a y AND gb \<noteq> 0 then compute_scalar_particle_double e a y t else t) = Finite r"
    by simp
  from Cons.IH[OF this] obtain x' where
    s: "(if atom_mask a y AND gb \<noteq> 0 then compute_scalar_particle_double e a y t else t) = Finite x'"
    and r: "r = fold (\<lambda>i t. if atom_mask a i AND gb \<noteq> 0 then compute_scalar_particle e a i t else t) ys x'"
    by blast
  show ?case
  proof (cases "atom_mask a y AND gb \<noteq> 0")
    case True
    with s have "compute_scalar_particle_double e a y t = Finite x'" by simp
    from scalar_particle_exact[OF this] True r show ?thesis by auto
  next
    case False
    with s r show ?thesis by simp
  qed
qed

lemma scalar_loop_exact:
  "compute_scalar_loop_double e gb a = Finite r \<Longrightarrow> r = compute_scalar_loop e gb a"
  unfolding compute_scalar_loop_double_def compute_scalar_loop_def
  by (drule scalar_fold_exact) simp

lemma allreduce_exact:
  "MPI_Allreduce_SUM_double x os = Finite r \<Longrightarrow>
   \<exists>x' ys. x = Finite x' \<and> os = map Finite ys \<and> r = x' + sum_list ys"
  unfolding MPI_Allreduce_SUM_double_def
proof (induction os arbitrary: x)
  case Nil
  then show ?case by simp
next
  case (Cons y ys)
  from Cons.prems have "fold (\<lambda>y acc. acc + y) ys (x + y) = Finite r" by simp
  from Cons.IH[OF this] obtain z zs where z: "x + y = Finite z" and zs: "ys = map Finite zs"
    and r: "r = z + sum_list zs" by blast
  from double_add_Finite[OF z] obtain x' y' where "x = Finite x'" "y = Finite y'" "z = x' + y'" by blast
  with zs r have "x = Finite x' \<and> y # ys = map Finite (y' # zs) \<and> r = x' + sum_list (y' # zs)" by simp
  then show ?case by (intro exI[of _ x'] exI[of _ "y' # zs"])
qed

lemma allreduce_loop_exact:
  assumes "MPI_Allreduce_SUM_double (compute_scalar_loop_double e gb a) os = Finite z"
  shows "\<exists>ys. os = map Finite ys \<and> z = compute_scalar_loop e gb a + sum_list ys"
proof -
  from allreduce_exact[OF assms] obtain x ys where x: "compute_scalar_loop_double e gb a = Finite x"
    and "os = map Finite ys" "z = x + sum_list ys" by blast
  with scalar_loop_exact[OF x] show ?thesis by blast
qed

lemma double_of_representable: "representable x \<Longrightarrow> double_of x = Finite x"
  unfolding representable_def double_of_def by auto

lemma double_mul_representable:
  "representable y \<Longrightarrow> representable (x * y) \<Longrightarrow> Finite x * double_of y = Finite (x * y)"
  by (simp add: double_of_representable times_double_def)

lemma double_mul_zero: "d * double_of 0 = (if is_finite d then Finite 0 else NaN)"
  unfolding times_double_def
  by (cases d) (simp_all add: double_of_def double_inf_def overflow_threshold_def)

text \<open>
  The \<^verbatim>\<open>double\<close> that holds a value of moderate size, and a value beyond all
  \<^verbatim>\<open>double\<close>s.
\<close>

lemma double_of_small: "- (10 ^ 30) \<le> x \<Longrightarrow> x \<le> 10 ^ 30 \<Longrightarrow> double_of x = Finite x"
proof -
  have "(10::real) ^ 30 < overflow_threshold" unfolding overflow_threshold_def by simp
  then show "- (10 ^ 30) \<le> x \<Longrightarrow> x \<le> 10 ^ 30 \<Longrightarrow> double_of x = Finite x"
    unfolding double_of_def by auto
qed

lemma double_of_huge: "10 ^ 309 \<le> x \<Longrightarrow> double_of x = PInf"
proof -
  have "overflow_threshold \<le> (10::real) ^ 309" unfolding overflow_threshold_def by simp
  then show "10 ^ 309 \<le> x \<Longrightarrow> double_of x = PInf"
    unfolding double_of_def by auto
qed

lemmas double_defs = compute_scalar_loop_double_def compute_scalar_particle_double_def
  vec3_double_def mat3_double_def plus_double_def times_double_def divide_double_def
  double_of_small double_of_huge double_inf_def

subsection \<open>The local part of the two evaluations\<close>

text \<open>
  What the opening and the local part of \<^verbatim>\<open>compute_scalar\<close> and
  \<^verbatim>\<open>compute_vector\<close> return: without a bias, with a bias behind a null pointer, and
  with a bias behind a valid pointer. The local part changes the time stamp, the
  particle store and the bias object, and nothing else.
\<close>

lemma tbias_call_None: "tbias s = None \<Longrightarrow> tbias_call m s = Inl null_pointer"
  by (simp add: tbias_call_def)

lemma tbias_call_Some:
  "tbias s = Some k \<Longrightarrow>
   tbias_call m s = Inr (s\<lparr>atom := snd (m (modify_compute s k) (atom s)),
                          modify_compute := (modify_compute s)(k := fst (m (modify_compute s k) (atom s)))\<rparr>)"
  by (simp add: tbias_call_def split: prod.splits)

lemma compute_scalar_remove_nobias:
  "tempbias s = 0 \<Longrightarrow> compute_scalar_remove e cls s = Inr (s\<lparr>invoked_scalar := update_ntimestep e\<rparr>)"
  by (simp add: compute_scalar_remove_def)

lemma compute_scalar_remove_null:
  "tempbias s \<noteq> 0 \<Longrightarrow> tbias s = None \<Longrightarrow> compute_scalar_remove e cls s = Inl null_pointer"
  by (simp add: compute_scalar_remove_def tbias_call_None)

lemma compute_scalar_remove_bias:
  "tempbias s \<noteq> 0 \<Longrightarrow> tbias s = Some k \<Longrightarrow>
   compute_scalar_remove e cls s =
     Inr (s\<lparr>invoked_scalar := update_ntimestep e,
            atom := snd (removed_scalar e cls s k),
            modify_compute := (modify_compute s)(k := fst (removed_scalar e cls s k))\<rparr>)"
  by (simp add: compute_scalar_remove_def tbias_call_Some removed_scalar_def
      bias_before_remove_scalar_def Let_def)

lemma compute_vector_remove_nobias:
  "tempbias s = 0 \<Longrightarrow> compute_vector_remove e cls s = Inr (s\<lparr>invoked_vector := update_ntimestep e\<rparr>)"
  by (simp add: compute_vector_remove_def)

lemma compute_vector_remove_null:
  "tempbias s \<noteq> 0 \<Longrightarrow> tbias s = None \<Longrightarrow> compute_vector_remove e cls s = Inl null_pointer"
  by (simp add: compute_vector_remove_def tbias_call_None)

lemma compute_vector_remove_bias:
  "tempbias s \<noteq> 0 \<Longrightarrow> tbias s = Some k \<Longrightarrow>
   compute_vector_remove e cls s =
     Inr (s\<lparr>invoked_vector := update_ntimestep e,
            atom := snd (removed_vector e cls s k),
            modify_compute := (modify_compute s)(k := fst (removed_vector e cls s k))\<rparr>)"
  by (simp add: compute_vector_remove_def tbias_call_Some removed_vector_def
      bias_before_remove_vector_def Let_def)

lemma compute_scalar_local_nobias:
  "tempbias s = 0 \<Longrightarrow>
   compute_scalar_local e cls s =
     Inr (s\<lparr>invoked_scalar := update_ntimestep e\<rparr>, compute_scalar_loop_double e (groupbit s) (atom s))"
  by (simp add: compute_scalar_local_def compute_scalar_remove_nobias)

lemma compute_scalar_local_null:
  "tempbias s \<noteq> 0 \<Longrightarrow> tbias s = None \<Longrightarrow> compute_scalar_local e cls s = Inl null_pointer"
  by (simp add: compute_scalar_local_def compute_scalar_remove_null)

lemma compute_scalar_local_bias:
  "tempbias s \<noteq> 0 \<Longrightarrow> tbias s = Some k \<Longrightarrow>
   compute_scalar_local e cls s =
     Inr (s\<lparr>invoked_scalar := update_ntimestep e,
            atom := snd (restored cls (removed_scalar e cls s k)),
            modify_compute := (modify_compute s)(k := fst (restored cls (removed_scalar e cls s k)))\<rparr>,
          compute_scalar_loop_double e (groupbit s) (snd (removed_scalar e cls s k)))"
  by (simp add: compute_scalar_local_def compute_scalar_remove_bias tbias_call_Some restored_def)

lemma compute_vector_local_nobias:
  "tempbias s = 0 \<Longrightarrow>
   compute_vector_local e cls s =
     Inr (s\<lparr>invoked_vector := update_ntimestep e\<rparr>, compute_vector_loop e (groupbit s) (atom s))"
  by (simp add: compute_vector_local_def compute_vector_remove_nobias)

lemma compute_vector_local_null:
  "tempbias s \<noteq> 0 \<Longrightarrow> tbias s = None \<Longrightarrow> compute_vector_local e cls s = Inl null_pointer"
  by (simp add: compute_vector_local_def compute_vector_remove_null)

lemma compute_vector_local_bias:
  "tempbias s \<noteq> 0 \<Longrightarrow> tbias s = Some k \<Longrightarrow>
   compute_vector_local e cls s =
     Inr (s\<lparr>invoked_vector := update_ntimestep e,
            atom := snd (restored cls (removed_vector e cls s k)),
            modify_compute := (modify_compute s)(k := fst (restored cls (removed_vector e cls s k)))\<rparr>,
          compute_vector_loop e (groupbit s) (snd (removed_vector e cls s k)))"
  by (simp add: compute_vector_local_def compute_vector_remove_bias tbias_call_Some restored_def)

lemma compute_scalar_local_frame:
  assumes "compute_scalar_local e cls s = Inr (s2, t)"
  shows "s2 = s\<lparr>invoked_scalar := update_ntimestep e, atom := atom s2, modify_compute := modify_compute s2\<rparr>"
proof (cases "tempbias s = 0")
  case True
  with assms show ?thesis by (simp add: compute_scalar_local_nobias)
next
  case False
  show ?thesis
  proof (cases "tbias s")
    case None
    with False assms show ?thesis by (simp add: compute_scalar_local_null)
  next
    case (Some k)
    from assms show ?thesis
      unfolding compute_scalar_local_bias[OF False Some] by auto
  qed
qed

lemma compute_vector_local_frame:
  assumes "compute_vector_local e cls s = Inr (s2, t)"
  shows "s2 = s\<lparr>invoked_vector := update_ntimestep e, atom := atom s2, modify_compute := modify_compute s2\<rparr>"
proof (cases "tempbias s = 0")
  case True
  with assms show ?thesis by (simp add: compute_vector_local_nobias)
next
  case False
  show ?thesis
  proof (cases "tbias s")
    case None
    with False assms show ?thesis by (simp add: compute_vector_local_null)
  next
    case (Some k)
    from assms show ?thesis
      unfolding compute_vector_local_bias[OF False Some] by auto
  qed
qed

lemma compute_scalar_local_fields:
  assumes "compute_scalar_local e cls s = Inr (s2, t)"
  shows "dof s2 = dof s" "tfactor s2 = tfactor s" "dynamic s2 = dynamic s" "tempbias s2 = tempbias s"
    "tbias s2 = tbias s" "fix_dof s2 = fix_dof s" "extra_dof s2 = extra_dof s"
    "igroup s2 = igroup s" "groupbit s2 = groupbit s" "vector s2 = vector s" "scalar s2 = scalar s"
  by (subst compute_scalar_local_frame[OF assms], simp)+

lemma compute_vector_local_fields:
  assumes "compute_vector_local e cls s = Inr (s2, t)"
  shows "dof s2 = dof s" "tfactor s2 = tfactor s" "dynamic s2 = dynamic s" "tempbias s2 = tempbias s"
    "tbias s2 = tbias s" "fix_dof s2 = fix_dof s" "extra_dof s2 = extra_dof s"
    "igroup s2 = igroup s" "groupbit s2 = groupbit s" "scalar s2 = scalar s"
  by (subst compute_vector_local_frame[OF assms], simp)+

lemma compute_scalar_local_sum:
  assumes "compute_scalar_local e cls s = Inr (s2, t)"
  shows "\<exists>sa. compute_scalar_remove e cls s = Inr sa \<and> t = compute_scalar_loop_double e (groupbit s) (atom sa)"
proof (cases "tempbias s = 0")
  case True
  with assms show ?thesis
    by (auto simp add: compute_scalar_local_nobias compute_scalar_remove_nobias)
next
  case False
  show ?thesis
  proof (cases "tbias s")
    case None
    with False assms show ?thesis by (simp add: compute_scalar_local_null)
  next
    case (Some k)
    from assms show ?thesis
      unfolding compute_scalar_local_bias[OF False Some] compute_scalar_remove_bias[OF False Some]
      by simp
  qed
qed

lemma compute_vector_local_sum:
  assumes "compute_vector_local e cls s = Inr (s2, t)"
  shows "\<exists>sa. compute_vector_remove e cls s = Inr sa \<and> t = compute_vector_loop e (groupbit s) (atom sa)"
proof (cases "tempbias s = 0")
  case True
  with assms show ?thesis
    by (auto simp add: compute_vector_local_nobias compute_vector_remove_nobias)
next
  case False
  show ?thesis
  proof (cases "tbias s")
    case None
    with False assms show ?thesis by (simp add: compute_vector_local_null)
  next
    case (Some k)
    from assms show ?thesis
      unfolding compute_vector_local_bias[OF False Some] compute_vector_remove_bias[OF False Some]
      by simp
  qed
qed

subsection \<open>The degrees of freedom\<close>

text \<open>
  With a valid pointer to the bias and \<^verbatim>\<open>int\<close> expressions that stay within 32
  bits, the counting loop returns the count of the specification, and
  \<^verbatim>\<open>dof_compute\<close> stores the expected degrees of freedom and the scale factor that
  belongs to them. It returns whenever the pointer is valid, and writes \<open>dof\<close> and
  \<open>tfactor\<close> only.
\<close>

lemma int32_id: "fits_int32 x \<Longrightarrow> int32 x = x"
  unfolding fits_int32_def int32_def by simp

lemma dof_count_fold:
  "tbias s = Some k \<Longrightarrow> 0 \<le> c \<Longrightarrow> c + int (length xs) < 2147483648 \<Longrightarrow>
   fold (\<lambda>i r. case r of
                   Inl err \<Rightarrow> Inl err
                 | Inr count \<Rightarrow>
                     if atom_mask (atom s) i AND groupbit s \<noteq> 0
                     then (case tbias s of
                             None \<Rightarrow> Inl null_pointer
                           | Some k \<Rightarrow>
                               if bias_dof_remove cls (modify_compute s k) (atom s) (int i) \<noteq> 0
                               then Inr (int32 (count + 1)) else Inr count)
                     else Inr count) xs (Inr c)
   = Inr (c + int (length (filter (\<lambda>i. atom_mask (atom s) i AND groupbit s \<noteq> 0 \<and>
            bias_dof_remove cls (modify_compute s k) (atom s) (int i) \<noteq> 0) xs)))"
proof (induction xs arbitrary: c)
  case Nil
  then show ?case by simp
next
  case (Cons x xs)
  from Cons.prems have w: "int32 (c + 1) = c + 1"
    by (intro int32_id) (simp add: fits_int32_def)
  from Cons.prems have "0 \<le> c + 1" and "c + 1 + int (length xs) < 2147483648" by simp_all
  from Cons.IH[OF Cons.prems(1) this] Cons.IH[OF Cons.prems(1,2)] Cons.prems
  show ?case by (simp add: w)
qed

lemma dof_compute_count_Some:
  "tbias s = Some k \<Longrightarrow> fits_int32 (atom_nlocal (atom s)) \<Longrightarrow>
   dof_compute_count cls s = Inr (dof_remove_count cls (modify_compute s k) (groupbit s) (atom s))"
  unfolding dof_compute_count_def dof_remove_count_def monitored_def
  by (subst dof_count_fold) (simp_all add: fits_int32_def)

lemma dof_count_fold_total:
  "tbias s = Some k \<Longrightarrow>
   \<exists>c'. fold (\<lambda>i r. case r of
                   Inl err \<Rightarrow> Inl err
                 | Inr count \<Rightarrow>
                     if atom_mask (atom s) i AND groupbit s \<noteq> 0
                     then (case tbias s of
                             None \<Rightarrow> Inl null_pointer
                           | Some k \<Rightarrow>
                               if bias_dof_remove cls (modify_compute s k) (atom s) (int i) \<noteq> 0
                               then Inr (int32 (count + 1)) else Inr count)
                     else Inr count) xs (Inr c) = Inr c'"
  by (induction xs arbitrary: c) simp_all

lemma dof_compute_count_total: "tbias s = Some k \<Longrightarrow> \<exists>c. dof_compute_count cls s = Inr c"
  unfolding dof_compute_count_def by (rule dof_count_fold_total)

lemma dof_compute_eq:
  assumes p: "tempbias s = 1 \<or> tempbias s = 2 \<longrightarrow> tbias s = Some k"
    and f: "dof_ints_fit e cls cm s (modify_compute s k)"
  shows "dof_compute e cls cm s =
     Inr (s\<lparr>dof := dof_expected e cls cm s (modify_compute s k),
            tfactor := (if dof_expected e cls cm s (modify_compute s k) > 0
                        then force_mvv2e e / (dof_expected e cls cm s (modify_compute s k) * force_boltz e)
                        else 0)\<rparr>)"
proof -
  from f have x: "int32 (extra_dof s + fix_dof s) = extra_dof s + fix_dof s"
    unfolding dof_ints_fit_def by (simp add: int32_id)
  show ?thesis
  proof (cases "tempbias s = 1")
    case True
    then have "tbias s = Some k" using p by simp
    with True show ?thesis
      by (simp add: dof_compute_def dof_expected_def Let_def x)
  next
    case n1: False
    show ?thesis
    proof (cases "tempbias s = 2")
      case True
      then have k: "tbias s = Some k" using p by simp
      from f True have n: "fits_int32 (atom_nlocal (atom s))"
        and c: "int32 (dof_remove_count cls (modify_compute s k) (groupbit s) (atom s)
                       + sum_list (others_count cm))
                = dof_remove_count cls (modify_compute s k) (groupbit s) (atom s)
                  + sum_list (others_count cm)"
        and m: "int32 ((if domain_dimension e = 2 then 3 else 6)
                        * (dof_remove_count cls (modify_compute s k) (groupbit s) (atom s)
                           + sum_list (others_count cm)))
                = (if domain_dimension e = 2 then 3 else 6)
                  * (dof_remove_count cls (modify_compute s k) (groupbit s) (atom s)
                     + sum_list (others_count cm))"
        unfolding dof_ints_fit_def by (simp_all add: int32_id)
      from True k m show ?thesis
        by (simp add: dof_compute_def dof_expected_def Let_def dof_compute_count_Some[OF k n]
            MPI_Allreduce_SUM_int_def c x)
    next
      case False
      with n1 show ?thesis
        by (simp add: dof_compute_def dof_expected_def Let_def x)
    qed
  qed
qed

lemma dof_compute_tfactor:
  "dof_compute e cls cm s = Inr s' \<Longrightarrow>
   tfactor s' = (if dof s' > 0 then force_mvv2e e / (dof s' * force_boltz e) else 0)"
  unfolding dof_compute_def Let_def
  by (auto split: if_splits option.splits sum.splits)

lemma dof_compute_fields:
  assumes "dof_compute e cls cm s = Inr s'"
  shows "atom s' = atom s" "modify_compute s' = modify_compute s" "fix_dof s' = fix_dof s"
    "tempbias s' = tempbias s" "tbias s' = tbias s" "scalar s' = scalar s" "vector s' = vector s"
  using assms unfolding dof_compute_def Let_def
  by (auto split: if_splits option.splits sum.splits)

lemma dof_compute_total:
  assumes a: "tempbias s = 1 \<or> tempbias s = 2 \<longrightarrow> tbias s \<noteq> None"
  shows "\<exists>s'. dof_compute e cls cm s = Inr s'"
proof (cases "tempbias s = 2")
  case True
  with a obtain k where "tbias s = Some k" by auto
  from dof_compute_count_total[OF this] obtain c where "dof_compute_count cls s = Inr c" by blast
  with True show ?thesis by (simp add: dof_compute_def Let_def)
next
  case False
  with a show ?thesis by (auto simp add: dof_compute_def Let_def split: option.splits)
qed

subsection \<open>The results of the two evaluations\<close>

lemma compute_scalar_split:
  assumes "compute_scalar e cls cm s = Inr (s', r)"
  shows "\<exists>s2 t s3. compute_scalar_local e cls s = Inr (s2, t)
           \<and> (if dynamic s \<noteq> 0 \<or> tempbias s = 2 then dof_compute e cls cm s2 = Inr s3 else s3 = s2)
           \<and> r = MPI_Allreduce_SUM_double t (others_t cm) * double_of (tfactor s3)
           \<and> s' = s3\<lparr>scalar := r\<rparr>"
proof -
  from assms obtain s2 t where l: "compute_scalar_local e cls s = Inr (s2, t)"
    unfolding compute_scalar_def by (auto split: sum.splits)
  note f = compute_scalar_local_fields[OF l]
  define x where "x = (if dynamic s \<noteq> 0 \<or> tempbias s = 2 then dof_compute e cls cm s2 else Inr s2)"
  from assms l have c: "(case x of Inl err \<Rightarrow> Inl err
       | Inr s3 \<Rightarrow> Inr (s3\<lparr>scalar := MPI_Allreduce_SUM_double t (others_t cm) * double_of (tfactor s3)\<rparr>,
                        MPI_Allreduce_SUM_double t (others_t cm) * double_of (tfactor s3))) = Inr (s', r)"
    by (simp add: compute_scalar_def Let_def f x_def)
  then obtain s3 where x: "x = Inr s3" by (cases x) simp_all
  with c have r: "r = MPI_Allreduce_SUM_double t (others_t cm) * double_of (tfactor s3)" and s': "s' = s3\<lparr>scalar := r\<rparr>"
    by auto
  from x have "if dynamic s \<noteq> 0 \<or> tempbias s = 2 then dof_compute e cls cm s2 = Inr s3 else s3 = s2"
    unfolding x_def by (auto split: if_splits)
  with l r s' show ?thesis by blast
qed

lemma compute_vector_split:
  assumes "compute_vector e cls cm s = Inr s'"
  shows "\<exists>s2 t. compute_vector_local e cls s = Inr (s2, t)
           \<and> s' = s2\<lparr>vector := vec6_scale (MPI_Allreduce_SUM_double6 t (others_t6 cm)) (force_mvv2e e)\<rparr>"
  using assms unfolding compute_vector_def by (auto split: sum.splits)

lemma compute_scalar_zero:
  assumes inv: "dof s \<le> 0 \<longrightarrow> tfactor s = 0"
    and cs: "compute_scalar e cls cm s = Inr (s2, r)" and neg: "dof s2 \<le> 0"
  shows "\<exists>sl t. compute_scalar_local e cls s = Inr (sl, t)
           \<and> r = (if is_finite (MPI_Allreduce_SUM_double t (others_t cm))
                  then Finite 0 else NaN)
           \<and> scalar s2 = r"
proof -
  from compute_scalar_split[OF cs] obtain sl t s3 where
    l: "compute_scalar_local e cls s = Inr (sl, t)"
    and c: "if dynamic s \<noteq> 0 \<or> tempbias s = 2 then dof_compute e cls cm sl = Inr s3 else s3 = sl"
    and r: "r = MPI_Allreduce_SUM_double t (others_t cm) * double_of (tfactor s3)"
    and s2: "s2 = s3\<lparr>scalar := r\<rparr>" by blast
  from s2 neg have n3: "dof s3 \<le> 0" by simp
  have "tfactor s3 = 0"
  proof (cases "dynamic s \<noteq> 0 \<or> tempbias s = 2")
    case True
    with c have "dof_compute e cls cm sl = Inr s3" by simp
    with n3 show ?thesis by (simp add: dof_compute_tfactor)
  next
    case False
    with c have "s3 = sl" by simp
    with n3 inv compute_scalar_local_fields(1,2)[OF l] show ?thesis by simp
  qed
  with r have "r = (if is_finite (MPI_Allreduce_SUM_double t (others_t cm))
                  then Finite 0 else NaN)"
    by (simp only: double_mul_zero)
  with l s2 show ?thesis by simp
qed

lemma compute_scalar_result:
  assumes cs: "compute_scalar e cls cm s = Inr (s', r)"
  shows "\<exists>sa s2. compute_scalar_remove e cls s = Inr sa
        \<and> compute_scalar_local e cls s = Inr (s2, compute_scalar_loop_double e (groupbit s) (atom sa))
        \<and> r = MPI_Allreduce_SUM_double (compute_scalar_loop_double e (groupbit s) (atom sa)) (others_t cm)
                * double_of (tfactor s')
        \<and> (\<forall>z. MPI_Allreduce_SUM_double (compute_scalar_loop_double e (groupbit s) (atom sa)) (others_t cm)
                  = Finite z \<longrightarrow>
               (\<exists>ys. others_t cm = map Finite ys
                    \<and> z = compute_scalar_loop e (groupbit s) (atom sa) + sum_list ys)
               \<and> (representable (tfactor s') \<and> representable (z * tfactor s')
                    \<longrightarrow> r = Finite (z * tfactor s')))
        \<and> scalar s' = r
        \<and> (if dynamic s \<noteq> 0 \<or> tempbias s = 2
           then (\<exists>s3. dof_compute e cls cm s2 = Inr s3 \<and> dof s' = dof s3 \<and> tfactor s' = tfactor s3)
                \<and> tfactor s' = tfactor_of e (dof s')
           else dof s' = dof s \<and> tfactor s' = tfactor s)
        \<and> (tfactor s = tfactor_of e (dof s) \<longrightarrow> tfactor s' = tfactor_of e (dof s'))"
proof -
  from compute_scalar_split[OF cs] obtain s2 t s3 where
    l: "compute_scalar_local e cls s = Inr (s2, t)"
    and c: "if dynamic s \<noteq> 0 \<or> tempbias s = 2 then dof_compute e cls cm s2 = Inr s3 else s3 = s2"
    and r: "r = MPI_Allreduce_SUM_double t (others_t cm) * double_of (tfactor s3)"
    and s': "s' = s3\<lparr>scalar := r\<rparr>" by blast
  from compute_scalar_local_sum[OF l] obtain sa where
    sa: "compute_scalar_remove e cls s = Inr sa"
    and t: "t = compute_scalar_loop_double e (groupbit s) (atom sa)"
    by blast
  have b: "if dynamic s \<noteq> 0 \<or> tempbias s = 2
           then (\<exists>s3. dof_compute e cls cm s2 = Inr s3 \<and> dof s' = dof s3 \<and> tfactor s' = tfactor s3)
                \<and> tfactor s' = tfactor_of e (dof s')
           else dof s' = dof s \<and> tfactor s' = tfactor s"
  proof (cases "dynamic s \<noteq> 0 \<or> tempbias s = 2")
    case True
    with c have d: "dof_compute e cls cm s2 = Inr s3" by simp
    from dof_compute_tfactor[OF d] d s' True show ?thesis by (auto simp: tfactor_of_def)
  next
    case False
    with c have "s3 = s2" by simp
    with s' compute_scalar_local_fields(1,2)[OF l] False show ?thesis by simp
  qed
  then have i: "tfactor s = tfactor_of e (dof s) \<longrightarrow> tfactor s' = tfactor_of e (dof s')"
    by (auto split: if_splits)
  from r s' t
  have r': "r = MPI_Allreduce_SUM_double (compute_scalar_loop_double e (groupbit s) (atom sa)) (others_t cm)
                * double_of (tfactor s')"
    by simp
  have f: "\<forall>z. MPI_Allreduce_SUM_double (compute_scalar_loop_double e (groupbit s) (atom sa)) (others_t cm)
                  = Finite z \<longrightarrow>
               (\<exists>ys. others_t cm = map Finite ys
                    \<and> z = compute_scalar_loop e (groupbit s) (atom sa) + sum_list ys)
               \<and> (representable (tfactor s') \<and> representable (z * tfactor s')
                    \<longrightarrow> r = Finite (z * tfactor s'))"
    using allreduce_loop_exact[of e "groupbit s" "atom sa" "others_t cm"] r'
    by (auto simp add: double_mul_representable)
  from s' have sc: "scalar s' = r" by simp
  from l t
  have l': "compute_scalar_local e cls s = Inr (s2, compute_scalar_loop_double e (groupbit s) (atom sa))"
    by simp
  from sa l' r' f sc b i show ?thesis by blast
qed

lemma compute_vector_result:
  assumes cv: "compute_vector e cls cm s = Inr sv"
  shows "\<exists>sa s2. compute_vector_remove e cls s = Inr sa
        \<and> compute_vector_local e cls s = Inr (s2, compute_vector_loop e (groupbit s) (atom sa))
        \<and> vector sv = vec6_scale (MPI_Allreduce_SUM_double6 (compute_vector_loop e (groupbit s) (atom sa))
                                    (others_t6 cm)) (force_mvv2e e)
        \<and> dof sv = dof s \<and> tfactor sv = tfactor s"
proof -
  from compute_vector_split[OF cv] obtain s2 t where
    l: "compute_vector_local e cls s = Inr (s2, t)"
    and sv: "sv = s2\<lparr>vector := vec6_scale (MPI_Allreduce_SUM_double6 t (others_t6 cm)) (force_mvv2e e)\<rparr>"
    by blast
  from compute_vector_local_sum[OF l] obtain sa where
    sa: "compute_vector_remove e cls s = Inr sa" and t: "t = compute_vector_loop e (groupbit s) (atom sa)"
    by blast
  from l sa t sv compute_vector_local_fields(1,2)[OF l] show ?thesis by auto
qed

lemma compute_scalar_total:
  assumes l: "compute_scalar_local e cls s = Inr (s2, t)"
    and p: "tempbias s = 1 \<or> tempbias s = 2 \<longrightarrow> tbias s \<noteq> None"
  shows "\<exists>s'. compute_scalar e cls cm s = Inr (s', MPI_Allreduce_SUM_double t (others_t cm) * double_of (tfactor s'))
           \<and> atom s' = atom s2 \<and> modify_compute s' = modify_compute s2"
proof -
  note f = compute_scalar_local_fields[OF l]
  from p f have "tempbias s2 = 1 \<or> tempbias s2 = 2 \<longrightarrow> tbias s2 \<noteq> None" by simp
  from dof_compute_total[OF this] obtain s3 where d: "dof_compute e cls cm s2 = Inr s3" by blast
  note fr = dof_compute_fields(1,2)[OF d]
  show ?thesis
  proof (cases "dynamic s \<noteq> 0 \<or> tempbias s = 2")
    case True
    with l d f have "compute_scalar e cls cm s =
        Inr (s3\<lparr>scalar := MPI_Allreduce_SUM_double t (others_t cm) * double_of (tfactor s3)\<rparr>,
             MPI_Allreduce_SUM_double t (others_t cm) * double_of (tfactor s3))"
      by (simp add: compute_scalar_def Let_def)
    with fr show ?thesis by simp
  next
    case False
    with l f have "compute_scalar e cls cm s =
        Inr (s2\<lparr>scalar := MPI_Allreduce_SUM_double t (others_t cm) * double_of (tfactor s2)\<rparr>,
             MPI_Allreduce_SUM_double t (others_t cm) * double_of (tfactor s2))"
      by (simp add: compute_scalar_def Let_def)
    then show ?thesis by simp
  qed
qed

lemma compute_vector_total:
  assumes l: "compute_vector_local e cls s = Inr (s2, t)"
  shows "\<exists>s'. compute_vector e cls cm s = Inr s'
           \<and> vector s' = vec6_scale (MPI_Allreduce_SUM_double6 t (others_t6 cm)) (force_mvv2e e)
           \<and> atom s' = atom s2 \<and> modify_compute s' = modify_compute s2"
  using l by (simp add: compute_vector_def)

lemma bracket_scalar:
  assumes tb: "tempbias s \<noteq> 0" and k: "tbias s = Some k"
  shows "\<exists>s'. compute_scalar e cls cm s =
             Inr (s', MPI_Allreduce_SUM_double
                        (compute_scalar_loop_double e (groupbit s) (snd (removed_scalar e cls s k)))
                        (others_t cm) * double_of (tfactor s'))
          \<and> atom s' = snd (restored cls (removed_scalar e cls s k))
          \<and> modify_compute s' = (modify_compute s)(k := fst (restored cls (removed_scalar e cls s k)))"
proof -
  from k have p: "tempbias s = 1 \<or> tempbias s = 2 \<longrightarrow> tbias s \<noteq> None" by simp
  from compute_scalar_total[OF compute_scalar_local_bias[OF tb k, of e cls] p, where cm = cm]
  show ?thesis by simp
qed

lemma bracket_vector:
  assumes tb: "tempbias s \<noteq> 0" and k: "tbias s = Some k"
  shows "\<exists>s'. compute_vector e cls cm s = Inr s'
          \<and> vector s' = vec6_scale (MPI_Allreduce_SUM_double6
                        (compute_vector_loop e (groupbit s) (snd (removed_vector e cls s k)))
                        (others_t6 cm)) (force_mvv2e e)
          \<and> atom s' = snd (restored cls (removed_vector e cls s k))
          \<and> modify_compute s' = (modify_compute s)(k := fst (restored cls (removed_vector e cls s k)))"
  using compute_vector_total[OF compute_vector_local_bias[OF tb k, of e cls], where cm = cm]
  by simp

lemma nobias_untouched:
  assumes tb: "tempbias s = 0"
  shows "(\<exists>s' r. compute_scalar e cls cm s = Inr (s', r) \<and> atom s' = atom s
                \<and> modify_compute s' = modify_compute s)
       \<and> (\<exists>s'. compute_vector e cls cm s = Inr s' \<and> atom s' = atom s
                \<and> modify_compute s' = modify_compute s)"
proof -
  from tb have p: "tempbias s = 1 \<or> tempbias s = 2 \<longrightarrow> tbias s \<noteq> None" by simp
  from compute_scalar_total[OF compute_scalar_local_nobias[OF tb, of e cls] p, where cm = cm]
  have "\<exists>s' r. compute_scalar e cls cm s = Inr (s', r) \<and> atom s' = atom s
                \<and> modify_compute s' = modify_compute s" by auto
  moreover from compute_vector_total[OF compute_vector_local_nobias[OF tb, of e cls], where cm = cm]
  have "\<exists>s'. compute_vector e cls cm s = Inr s' \<and> atom s' = atom s
                \<and> modify_compute s' = modify_compute s" by auto
  ultimately show ?thesis by (rule conjI)
qed

subsection \<open>The degrees of freedom of the fixes\<close>

text \<open>
  \<^verbatim>\<open>init\<close> stores the sum over the fixes; the fixes of \<^verbatim>\<open>modify\<close> are read nowhere
  else.
\<close>

lemma fold_add_sum_list:
  "fold (\<lambda>i acc. acc + f i) xs (a::int) = a + sum_list (map f xs)"
  by (induction xs arbitrary: a) simp_all

lemma init_bias_fields:
  assumes "init_bias e cls s = Inr s1"
  shows "igroup s1 = igroup s" "groupbit s1 = groupbit s" "extra_dof s1 = extra_dof s" "atom s1 = atom s"
    "tempbias s \<noteq> 0 \<longrightarrow> (tempbias s1 = 1 \<or> tempbias s1 = 2) \<and> tbias s1 \<noteq> None"
    "tempbias s = 0 \<longrightarrow> s1 = s"
  using assms unfolding init_bias_def Let_def
  by (auto split: if_splits sum.splits)

lemma init_fix_dof:
  assumes "init e cls cm s = Inr s'"
  shows "fix_dof s' = sum_list (map (\<lambda>i. modify_fix_dof e i (igroup s)) [0..<nat (modify_nfix e)])"
proof -
  from assms obtain s1 where b: "init_bias e cls s = Inr s1"
    and d: "dof_compute e cls cm
                 (s1\<lparr>fix_dof := fold (\<lambda>i acc. acc + modify_fix_dof e i (igroup s1))
                                   [0..<nat (modify_nfix e)] 0\<rparr>) = Inr s'"
    unfolding init_def by (auto split: sum.splits)
  from dof_compute_fields(3)[OF d] init_bias_fields(1)[OF b] show ?thesis
    by (simp add: fold_add_sum_list)
qed

lemma particles_ignore_fixes:
  "compute_scalar_particle_double (e\<lparr>modify_nfix := n, modify_fix_dof := f\<rparr>) a i t
     = compute_scalar_particle_double e a i t"
  "compute_vector_particle (e\<lparr>modify_nfix := n, modify_fix_dof := f\<rparr>) a i t6 = compute_vector_particle e a i t6"
  unfolding compute_scalar_particle_double_def compute_vector_particle_def by simp_all

lemma loops_ignore_fixes:
  "compute_scalar_loop_double (e\<lparr>modify_nfix := n, modify_fix_dof := f\<rparr>) gb a
     = compute_scalar_loop_double e gb a"
  "compute_vector_loop (e\<lparr>modify_nfix := n, modify_fix_dof := f\<rparr>) gb a = compute_vector_loop e gb a"
  unfolding compute_scalar_loop_double_def compute_vector_loop_def particles_ignore_fixes by simp_all

lemma dof_compute_ignores_fixes:
  "dof_compute (e\<lparr>modify_nfix := n, modify_fix_dof := f\<rparr>) cls cm s = dof_compute e cls cm s"
  unfolding dof_compute_def Let_def
  by (simp cong: if_cong sum.case_cong option.case_cong)

lemma remove_ignores_fixes:
  "compute_scalar_remove (e\<lparr>modify_nfix := n, modify_fix_dof := f\<rparr>) cls s = compute_scalar_remove e cls s"
  "compute_vector_remove (e\<lparr>modify_nfix := n, modify_fix_dof := f\<rparr>) cls s = compute_vector_remove e cls s"
  unfolding compute_scalar_remove_def compute_vector_remove_def Let_def
  by (simp_all cong: if_cong sum.case_cong option.case_cong)

lemma local_ignores_fixes:
  "compute_scalar_local (e\<lparr>modify_nfix := n, modify_fix_dof := f\<rparr>) cls s = compute_scalar_local e cls s"
  "compute_vector_local (e\<lparr>modify_nfix := n, modify_fix_dof := f\<rparr>) cls s = compute_vector_local e cls s"
  unfolding compute_scalar_local_def compute_vector_local_def remove_ignores_fixes loops_ignore_fixes
  by simp_all

lemma compute_scalar_ignores_fixes:
  "compute_scalar (e\<lparr>modify_nfix := n, modify_fix_dof := f\<rparr>) cls cm s = compute_scalar e cls cm s"
  unfolding compute_scalar_def local_ignores_fixes dof_compute_ignores_fixes by simp

lemma compute_vector_ignores_fixes:
  "compute_vector (e\<lparr>modify_nfix := n, modify_fix_dof := f\<rparr>) cls cm s = compute_vector e cls cm s"
  unfolding compute_vector_def local_ignores_fixes
  by (simp cong: sum.case_cong prod.case_cong)

lemma compute_scalar_fix_dof:
  assumes "compute_scalar e cls cm s = Inr (s2, r)"
  shows "fix_dof s2 = fix_dof s"
proof -
  from compute_scalar_split[OF assms] obtain sl t s3 where
    l: "compute_scalar_local e cls s = Inr (sl, t)"
    and c: "if dynamic s \<noteq> 0 \<or> tempbias s = 2 then dof_compute e cls cm sl = Inr s3 else s3 = sl"
    and s2: "s2 = s3\<lparr>scalar := r\<rparr>" by blast
  from c have "fix_dof s3 = fix_dof sl"
    by (auto split: if_splits simp: dof_compute_fields(3))
  with s2 compute_scalar_local_fields(6)[OF l] show ?thesis by simp
qed

lemma compute_vector_fix_dof:
  assumes "compute_vector e cls cm s = Inr s3"
  shows "fix_dof s3 = fix_dof s"
proof -
  from compute_vector_split[OF assms] obtain sl t where
    l: "compute_vector_local e cls s = Inr (sl, t)"
    and s3: "s3 = sl\<lparr>vector := vec6_scale (MPI_Allreduce_SUM_double6 t (others_t6 cm)) (force_mvv2e e)\<rparr>"
    by blast
  with compute_vector_local_fields(6)[OF l] show ?thesis by simp
qed

subsection \<open>Initialisation\<close>

text \<open>
  The first loop of \<^verbatim>\<open>init\<close> fails exactly when the process has a point particle
  in the group, the resolution of the bias fails exactly in the five cases listed in
  \<open>init_violation\<close>, and \<^verbatim>\<open>dof_compute\<close> does not fail after them.
\<close>

lemma check_fold_Inl:
  "fold (\<lambda>i r. case r of
                   Inl err \<Rightarrow> Inl err
                 | Inr u \<Rightarrow>
                     if atom_mask a i AND gb \<noteq> 0
                     then (if atom_ellipsoid a i < 0
                           then Inl (error_one ''Compute temp/asphere requires extended particles'')
                           else Inr ())
                     else Inr ()) xs (Inl e0) = Inl e0"
  by (induction xs) simp_all

lemma check_fold_Inr:
  "fold (\<lambda>i r. case r of
                   Inl err \<Rightarrow> Inl err
                 | Inr u \<Rightarrow>
                     if atom_mask a i AND gb \<noteq> 0
                     then (if atom_ellipsoid a i < 0
                           then Inl (error_one ''Compute temp/asphere requires extended particles'')
                           else Inr ())
                     else Inr ()) xs (Inr ())
   = (if \<exists>i \<in> set xs. atom_mask a i AND gb \<noteq> 0 \<and> atom_ellipsoid a i < 0
      then Inl (error_one ''Compute temp/asphere requires extended particles'') else Inr ())"
  by (induction xs) (simp_all add: check_fold_Inl)

lemma init_check_extended_eq:
  "init_check_extended gb a =
     (if has_point_particle gb a
      then Inl (error_one ''Compute temp/asphere requires extended particles'') else Inr ())"
  unfolding init_check_extended_def has_point_particle_def monitored_def
  by (rule check_fold_Inr)

lemma init_bias_isl:
  "isl (init_bias e cls s) =
     (tempbias s \<noteq> 0 \<and>
         (modify_find_compute e (id_bias s) < 0
          \<or> bias_tempflag cls (resolved_bias e s) = 0
          \<or> bias_tempbias cls (resolved_bias e s) = 0
          \<or> bias_igroup cls (resolved_bias e s) \<noteq> igroup s
          \<or> isl (bias_init cls (resolved_bias e s) (atom s))))"
  unfolding init_bias_def resolved_bias_def Let_def
  by (auto split: sum.splits)

lemma init_after_bias:
  assumes b: "init_bias e cls s = Inr s1"
  shows "\<exists>s'. dof_compute e cls cm
                 (s1\<lparr>fix_dof := sum_list (map (\<lambda>i. modify_fix_dof e i (igroup s)) [0..<nat (modify_nfix e)])\<rparr>)
               = Inr s'"
proof -
  have "tempbias s1 = 1 \<or> tempbias s1 = 2 \<longrightarrow> tbias s1 \<noteq> None"
    using init_bias_fields(5,6)[OF b] by (cases "tempbias s = 0") auto
  then show ?thesis by (intro dof_compute_total) simp
qed

lemma init_eq:
  "init e cls cm s =
     (if has_point_particle (groupbit s) (atom s)
      then Inl (error_one ''Compute temp/asphere requires extended particles'')
      else case init_bias e cls s of
             Inl err \<Rightarrow> Inl err
           | Inr s1 \<Rightarrow>
               dof_compute e cls cm
                 (s1\<lparr>fix_dof := sum_list (map (\<lambda>i. modify_fix_dof e i (igroup s)) [0..<nat (modify_nfix e)])\<rparr>))"
  unfolding init_def init_check_extended_eq
  by (auto split: sum.splits simp: fold_add_sum_list init_bias_fields(1))

lemma tb_region: "tempbias ex_region \<noteq> 0" "tbias ex_region = Some 1"
  by (simp_all add: ex_region_def)

subsection \<open>The pointer to the bias\<close>

text \<open>
  \<^verbatim>\<open>remove_bias\<close> and \<^verbatim>\<open>restore_bias\<close> read the pointer \<^verbatim>\<open>tbias\<close> and neither
  \<open>tempbias\<close> nor the bit of the group: through a pointer that is not null they
  return what the bias compute's function of the same name returns and store the
  bias object it leaves, and with a null pointer they return the state and the
  velocity as they were. For a command that names no bias, the constructor and
  \<^verbatim>\<open>init\<close> leave in the pointer what was there before.
\<close>

lemma remove_restore_delegate:
  "(tbias s = Some k \<longrightarrow>
      remove_bias cls s i u =
        (s\<lparr>modify_compute := (modify_compute s)(k := fst (bias_remove_bias cls (modify_compute s k) (atom s) i u))\<rparr>,
         snd (bias_remove_bias cls (modify_compute s k) (atom s) i u))
    \<and> restore_bias cls s i u =
        (s\<lparr>modify_compute := (modify_compute s)(k := fst (bias_restore_bias cls (modify_compute s k) (atom s) i u))\<rparr>,
         snd (bias_restore_bias cls (modify_compute s k) (atom s) i u)))
   \<and> (tbias s = None \<longrightarrow> remove_bias cls s i u = (s, u) \<and> restore_bias cls s i u = (s, u))
   \<and> remove_bias cls (s\<lparr>tempbias := tb, groupbit := gb\<rparr>) i u =
        (case remove_bias cls s i u of (s', u') \<Rightarrow> (s'\<lparr>tempbias := tb, groupbit := gb\<rparr>, u'))
   \<and> restore_bias cls (s\<lparr>tempbias := tb, groupbit := gb\<rparr>) i u =
        (case restore_bias cls s i u of (s', u') \<Rightarrow> (s'\<lparr>tempbias := tb, groupbit := gb\<rparr>, u'))"
  by (simp add: remove_bias_def restore_bias_def split: prod.splits option.splits)

lemma constructor_keeps_tbias:
  assumes "ComputeTempAsphere sm obj arg = Inr s0"
  shows "tbias s0 = tbias obj" "length arg = 3 \<longrightarrow> tempbias s0 = 0"
  using assms unfolding ComputeTempAsphere_def Let_def
  by (auto split: if_splits)

lemma init_keeps_tbias:
  assumes "tempbias s0 = 0" and "init e cls cm s0 = Inr s1"
  shows "tbias s1 = tbias s0" "tempbias s1 = 0"
proof -
  from assms(2) obtain sb where b: "init_bias e cls s0 = Inr sb"
    and d: "dof_compute e cls cm
                 (sb\<lparr>fix_dof := fold (\<lambda>i acc. acc + modify_fix_dof e i (igroup sb))
                                   [0..<nat (modify_nfix e)] 0\<rparr>) = Inr s1"
    unfolding init_def by (auto split: sum.splits)
  from init_bias_fields(6)[OF b] assms(1) have "sb = s0" by simp
  with dof_compute_fields(4,5)[OF d] assms(1) show "tbias s1 = tbias s0" "tempbias s1 = 0"
    by simp_all
qed

section \<open>The kernel: moments, body-frame angular velocity and the tensor terms\<close>

text \<open>
  Claim C2. For a monitored particle of mass \<open>m\<close>, semi-axes \<open>(a, b, c)\<close>, orientation
  \<open>q\<close> and angular momentum \<open>L\<close>, one pass of the loop of \<^verbatim>\<open>compute_scalar\<close> adds to
  \<open>t\<close> the translational energy \<open>m(vx\<^sup>2+vy\<^sup>2+vz\<^sup>2)\<close> and the rotational energy
  \<open>Ix\<cdot>\<omega>x\<^sup>2 + Iy\<cdot>\<omega>y\<^sup>2 + Iz\<cdot>\<omega>z\<^sup>2\<close>, where \<open>(Ix, Iy, Iz)\<close> are the principal
  moments \<open>m(b\<^sup>2+c\<^sup>2)/5\<close>, \<open>m(a\<^sup>2+c\<^sup>2)/5\<close>, \<open>m(a\<^sup>2+b\<^sup>2)/5\<close> and \<open>\<omega>\<close> is
  \<open>R\<^sup>t(q)\<cdot>L\<close> divided componentwise by them; the loop of \<^verbatim>\<open>compute_vector\<close> adds
  the same terms, one by one, to the components \<open>xx, yy, zz\<close>. The same pass in the
  arithmetic of \<^verbatim>\<open>double\<close>, whenever it leaves a finite \<open>t\<close>, has started from a
  finite \<open>t\<close> and has added these two energies.
\<close>

theorem kernel_moments_and_energy:
  "compute_scalar_particle e a i t =
     t + translational_energy (atom_rmass a i) (atom_v a i)
       + rotational_energy (particle_inertia a i) (particle_wbody e a i)
   \<and> vec6_diag (compute_vector_particle e a i t6) =
     vec3_add (vec6_diag t6)
       (vec3_add (translational_diag (atom_rmass a i) (atom_v a i))
                 (rotational_diag (particle_inertia a i) (particle_wbody e a i)))
   \<and> (compute_scalar_particle_double e a i td = Finite r \<longrightarrow>
        (\<exists>x. td = Finite x
           \<and> r = x + translational_energy (atom_rmass a i) (atom_v a i)
                   + rotational_energy (particle_inertia a i) (particle_wbody e a i)))"
proof -
  obtain t0 t1 t2 t3 t4 t5 where t6: "t6 = (t0, t1, t2, t3, t4, t5)"
    by (cases t6) auto
  obtain s0 s1 s2 where sh: "shape (avec_bonus a (atom_ellipsoid a i)) = (s0, s1, s2)"
    by (cases "shape (avec_bonus a (atom_ellipsoid a i))") auto
  obtain v0 v1 v2 where v: "atom_v a i = (v0, v1, v2)"
    by (cases "atom_v a i") auto
  obtain l0 l1 l2 where l: "atom_angmom a i = (l0, l1, l2)"
    by (cases "atom_angmom a i") auto
  obtain r00 r01 r02 r10 r11 r12 r20 r21 r22 where
    rm: "quat_to_mat e (quat (avec_bonus a (atom_ellipsoid a i))) =
          ((r00, r01, r02), (r10, r11, r12), (r20, r21, r22))"
    by (cases "quat_to_mat e (quat (avec_bonus a (atom_ellipsoid a i)))") auto
  have sc: "compute_scalar_particle e a i t =
     t + translational_energy (atom_rmass a i) (atom_v a i)
       + rotational_energy (particle_inertia a i) (particle_wbody e a i)" for t
    unfolding compute_scalar_particle_def
      translational_energy_def rotational_energy_def particle_inertia_def particle_wbody_def
      body_angular_velocity_def ellipsoid_inertia_def mat3_vec_def mat3_transpose_def
      transpose_matvec_def sh v l rm Let_def prod.case power2_eq_square
    by (simp only: ac_simps)
  have vc: "vec6_diag (compute_vector_particle e a i t6) =
     vec3_add (vec6_diag t6)
       (vec3_add (translational_diag (atom_rmass a i) (atom_v a i))
                 (rotational_diag (particle_inertia a i) (particle_wbody e a i)))"
    unfolding compute_vector_particle_def vec6_diag_def
      particle_inertia_def particle_wbody_def translational_diag_def rotational_diag_def
      body_angular_velocity_def ellipsoid_inertia_def mat3_vec_def mat3_transpose_def
      transpose_matvec_def vec3_add_def t6 sh v l rm Let_def prod.case power2_eq_square
    by (simp only: ac_simps)
  have "compute_scalar_particle_double e a i td = Finite r \<longrightarrow>
        (\<exists>x. td = Finite x
           \<and> r = x + translational_energy (atom_rmass a i) (atom_v a i)
                   + rotational_energy (particle_inertia a i) (particle_wbody e a i))"
    using scalar_particle_exact[of e a i td r] sc by auto
  with sc vc show ?thesis by simp
qed

text \<open>
  Particle 1 of the worked configuration: mass 10, velocity \<open>(1, 2, 3)\<close>, moments
  \<open>(26, 20, 10)\<close> and body-frame angular velocity \<open>(1, - 2, 3)\<close>. It adds
  \<open>140 + 196\<close> to the 28 of particle 0.
\<close>

theorem kernel_moments_and_energy_witness:
  "compute_scalar_particle_double ex_env ex_atom 1 (Finite 28) = Finite 364
   \<and> particle_inertia ex_atom 1 = (26, 20, 10)
   \<and> particle_wbody ex_env ex_atom 1 = (1, - 2, 3)
   \<and> translational_energy (atom_rmass ex_atom 1) (atom_v ex_atom 1) = 140
   \<and> rotational_energy (particle_inertia ex_atom 1) (particle_wbody ex_env ex_atom 1) = 196"
proof -
  have d: "compute_scalar_particle_double ex_env ex_atom 1 (Finite 28) = Finite 364"
    by (simp add: double_defs transpose_matvec_def ex_env_def ex_atom_def ex_quat_to_mat_def Let_def)
  have i: "particle_inertia ex_atom 1 = (26, 20, 10)"
    by (simp add: particle_inertia_def ellipsoid_inertia_def ex_atom_def)
  have w: "particle_wbody ex_env ex_atom 1 = (1, - 2, 3)"
    by (simp add: particle_wbody_def particle_inertia_def ellipsoid_inertia_def body_angular_velocity_def
        mat3_vec_def mat3_transpose_def ex_env_def ex_atom_def ex_quat_to_mat_def)
  have t: "translational_energy (atom_rmass ex_atom 1) (atom_v ex_atom 1) = 140"
    by (simp add: translational_energy_def ex_atom_def)
  from kernel_moments_and_energy[of ex_env ex_atom 1 _ _ "Finite 28" 364] d t
  have "rotational_energy (particle_inertia ex_atom 1) (particle_wbody ex_env ex_atom 1) = 196"
    by simp
  with d i w t show ?thesis by simp
qed

text \<open>
  Claim C1, as amended. For a monitored particle, one pass of the loop of
  \<^verbatim>\<open>compute_vector\<close> adds to the components \<open>xy, xz, yz\<close>, in this order, the
  translational terms \<open>m\<cdot>vx\<cdot>vy\<close>, \<open>m\<cdot>vx\<cdot>vz\<close>, \<open>m\<cdot>vy\<cdot>vz\<close> and the rotational
  terms \<open>Ix\<cdot>\<omega>x\<cdot>\<omega>y\<close>, \<open>Iy\<cdot>\<omega>x\<cdot>\<omega>z\<close>, \<open>Iz\<cdot>\<omega>y\<cdot>\<omega>z\<close>: the pair of angular
  velocities is the pair of the component, and the moment is that of the first,
  second and third axis.
\<close>

theorem cross_terms_added:
  "vec6_offdiag (compute_vector_particle e a i t6) =
     vec3_add (vec6_offdiag t6)
       (vec3_add (translational_cross (atom_rmass a i) (atom_v a i))
                 (rotational_cross (particle_inertia a i) (particle_wbody e a i)))"
proof -
  obtain t0 t1 t2 t3 t4 t5 where t6: "t6 = (t0, t1, t2, t3, t4, t5)"
    by (cases t6) auto
  obtain s0 s1 s2 where sh: "shape (avec_bonus a (atom_ellipsoid a i)) = (s0, s1, s2)"
    by (cases "shape (avec_bonus a (atom_ellipsoid a i))") auto
  obtain v0 v1 v2 where v: "atom_v a i = (v0, v1, v2)"
    by (cases "atom_v a i") auto
  obtain l0 l1 l2 where l: "atom_angmom a i = (l0, l1, l2)"
    by (cases "atom_angmom a i") auto
  obtain r00 r01 r02 r10 r11 r12 r20 r21 r22 where
    r: "quat_to_mat e (quat (avec_bonus a (atom_ellipsoid a i))) =
          ((r00, r01, r02), (r10, r11, r12), (r20, r21, r22))"
    by (cases "quat_to_mat e (quat (avec_bonus a (atom_ellipsoid a i)))") auto
  show ?thesis
    unfolding compute_vector_particle_def vec6_offdiag_def
      particle_inertia_def particle_wbody_def translational_cross_def rotational_cross_def
      body_angular_velocity_def ellipsoid_inertia_def mat3_vec_def mat3_transpose_def
      transpose_matvec_def vec3_add_def t6 sh v l r Let_def prod.case power2_eq_square
    by (simp only: ac_simps)
qed

text \<open>
  Claim C1 as the specification states it fails. Particle 0 of the worked
  configuration has the moments \<open>(2, 2, 2)\<close> and the body-frame angular velocity
  \<open>(1, 2, 3)\<close> and is at rest: from zero accumulators the code leaves \<open>(4, 6, 12)\<close> in
  \<open>xy, xz, yz\<close>, and the terms of the specification are \<open>(4, 12, 6)\<close>.
\<close>

theorem cross_terms_claimed_fail:
  "vec6_offdiag (compute_vector_particle ex_env ex_atom 0 (0, 0, 0, 0, 0, 0)) \<noteq>
     vec3_add (vec6_offdiag (0, 0, 0, 0, 0, 0))
       (vec3_add (translational_cross (atom_rmass ex_atom 0) (atom_v ex_atom 0))
                 (rotational_cross_claimed (particle_inertia ex_atom 0) (particle_wbody ex_env ex_atom 0)))"
  by (simp add: compute_vector_particle_def vec6_offdiag_def
    particle_inertia_def particle_wbody_def translational_cross_def rotational_cross_claimed_def
    body_angular_velocity_def ellipsoid_inertia_def mat3_vec_def mat3_transpose_def
    transpose_matvec_def vec3_add_def ex_env_def ex_atom_def ex_quat_to_mat_def Let_def)

section \<open>Degrees of freedom and the scale factor\<close>

text \<open>
  Claim C3, as amended. Whenever a bias of the global or of the region kind is
  reached through a valid pointer and the \<^verbatim>\<open>int\<close> expressions of \<^verbatim>\<open>dof_compute\<close>
  stay within 32 bits, \<^verbatim>\<open>dof_compute\<close> returns, and the degrees of freedom it
  stores are \<open>nper \<times> N\<close> (\<open>nper\<close> is 6 in three dimensions and 3 in two, \<open>N\<close> is
  the particle count of the group, asked once from \<^verbatim>\<open>group\<close>), less the global
  answer of the bias times \<open>N\<close> for a bias of the global kind, less \<open>nper\<close> times
  the sum over all processes of the monitored particles for which \<^verbatim>\<open>dof_remove\<close>
  holds for a bias of the region kind, less the extra degrees of freedom and those
  of the fixes.
\<close>

theorem dof_compute_value:
  assumes "tempbias s = 1 \<or> tempbias s = 2 \<longrightarrow> tbias s = Some k"
    and "dof_ints_fit e cls cm s (modify_compute s k)"
  shows "\<exists>s'. dof_compute e cls cm s = Inr s' \<and> dof s' = dof_expected e cls cm s (modify_compute s k)"
  by (simp add: dof_compute_eq[OF assms])

text \<open>
  Claim C3 as the specification states it, for every configuration, fails. With
  \<open>2147483647\<close> extra degrees of freedom and 4 of the fixes, the \<^verbatim>\<open>int\<close> sum of
  line 140 wraps around to \<open>- 2147483645\<close>: without a bias the code stores
  \<open>30 + 2147483645\<close> degrees of freedom, and the count of the specification is
  \<open>30 - 2147483647 - 4\<close>.
\<close>

theorem dof_claimed_fail:
  "map_sum id dof (dof_compute ex_env ex_cls ex_comm (ex_process\<lparr>extra_dof := 2147483647, fix_dof := 4\<rparr>))
     = Inr 2147483675
   \<and> dof_expected ex_env ex_cls ex_comm (ex_process\<lparr>extra_dof := 2147483647, fix_dof := 4\<rparr>)
        (modify_compute (ex_process\<lparr>extra_dof := 2147483647, fix_dof := 4\<rparr>) 0) = - 2147483621"
  by (simp add: dof_compute_def dof_expected_def int32_def Let_def ex_defs)

text \<open>
  In the worked configuration: 8 degrees of freedom with the region bias (one
  particle here and two elsewhere are counted), 21 with the global bias, and 11 in
  two dimensions without a bias.
\<close>

theorem dof_compute_value_witness:
  "(\<exists>s'. dof_compute ex_env ex_cls ex_comm ex_region = Inr s' \<and> dof s' = 8)
   \<and> (\<exists>s'. dof_compute ex_env ex_cls ex_comm
              (ex_process\<lparr>tempbias := 1, tbias := Some 0, fix_dof := 4\<rparr>) = Inr s' \<and> dof s' = 21)
   \<and> (\<exists>s'. dof_compute (ex_env\<lparr>domain_dimension := 2\<rparr>) ex_cls ex_comm
              (ex_process\<lparr>fix_dof := 4\<rparr>) = Inr s' \<and> dof s' = 11)"
proof -
  have h1: "tempbias ex_region = 1 \<or> tempbias ex_region = 2 \<longrightarrow> tbias ex_region = Some 1"
    by (simp add: ex_region_def)
  have f1: "dof_ints_fit ex_env ex_cls ex_comm ex_region (modify_compute ex_region 1)"
    by (simp add: dof_ints_fit_def fits_int32_def dof_remove_count_def monitored_def ex_region_def
        ex_defs upt_rec)
  have v1: "dof_expected ex_env ex_cls ex_comm ex_region (modify_compute ex_region 1) = 8"
    by (simp add: dof_expected_def dof_remove_count_def monitored_def ex_region_def ex_defs upt_rec)
  have h2: "tempbias (ex_process\<lparr>tempbias := 1, tbias := Some 0, fix_dof := 4\<rparr>) = 1
            \<or> tempbias (ex_process\<lparr>tempbias := 1, tbias := Some 0, fix_dof := 4\<rparr>) = 2
       \<longrightarrow> tbias (ex_process\<lparr>tempbias := 1, tbias := Some 0, fix_dof := 4\<rparr>) = Some 0"
    by simp
  have f2: "dof_ints_fit ex_env ex_cls ex_comm (ex_process\<lparr>tempbias := 1, tbias := Some 0, fix_dof := 4\<rparr>)
              (modify_compute (ex_process\<lparr>tempbias := 1, tbias := Some 0, fix_dof := 4\<rparr>) 0)"
    by (simp add: dof_ints_fit_def fits_int32_def ex_defs)
  have v2: "dof_expected ex_env ex_cls ex_comm (ex_process\<lparr>tempbias := 1, tbias := Some 0, fix_dof := 4\<rparr>)
              (modify_compute (ex_process\<lparr>tempbias := 1, tbias := Some 0, fix_dof := 4\<rparr>) 0) = 21"
    by (simp add: dof_expected_def ex_defs)
  have h3: "tempbias (ex_process\<lparr>fix_dof := 4\<rparr>) = 1 \<or> tempbias (ex_process\<lparr>fix_dof := 4\<rparr>) = 2
       \<longrightarrow> tbias (ex_process\<lparr>fix_dof := 4\<rparr>) = Some 0"
    by (simp add: ex_process_def)
  have f3: "dof_ints_fit (ex_env\<lparr>domain_dimension := 2\<rparr>) ex_cls ex_comm (ex_process\<lparr>fix_dof := 4\<rparr>)
              (modify_compute (ex_process\<lparr>fix_dof := 4\<rparr>) 0)"
    by (simp add: dof_ints_fit_def fits_int32_def ex_defs)
  have v3: "dof_expected (ex_env\<lparr>domain_dimension := 2\<rparr>) ex_cls ex_comm (ex_process\<lparr>fix_dof := 4\<rparr>)
              (modify_compute (ex_process\<lparr>fix_dof := 4\<rparr>) 0) = 11"
    by (simp add: dof_expected_def ex_defs)
  from dof_compute_value[OF h1 f1]
       dof_compute_value[OF h2 f2]
       dof_compute_value[OF h3 f3]
  show ?thesis unfolding v1 v2 v3 by blast
qed

text \<open>
  Claim C4, as amended. When the degrees of freedom that \<^verbatim>\<open>dof_compute\<close> stores are
  not positive, the scale factor it stores is 0; no error is raised on that account,
  since \<^verbatim>\<open>dof_compute\<close> returns whenever the pointer to a bias it needs is valid.
  \<^verbatim>\<open>compute_scalar\<close>, started in a state whose scale factor is 0 when its degrees of
  freedom are not positive, and leaving a state whose degrees of freedom are not
  positive, multiplies the sum over the processes by that 0: it returns and stores 0
  when the sum is finite, whatever the velocities and angular momenta, and NaN when
  the sum is an infinity or NaN.
\<close>

theorem nonpositive_dof_gives_zero:
  "(dof_compute e cls cm s = Inr s' \<longrightarrow> dof s' \<le> 0 \<longrightarrow> tfactor s' = 0)
   \<and> ((tempbias s = 1 \<or> tempbias s = 2 \<longrightarrow> tbias s \<noteq> None) \<longrightarrow> (\<exists>s'. dof_compute e cls cm s = Inr s'))
   \<and> ((dof s \<le> 0 \<longrightarrow> tfactor s = 0) \<longrightarrow> compute_scalar e cls cm s = Inr (s2, r) \<longrightarrow> dof s2 \<le> 0
        \<longrightarrow> (\<exists>sl t. compute_scalar_local e cls s = Inr (sl, t)
               \<and> r = (if is_finite (MPI_Allreduce_SUM_double t (others_t cm))
                      then Finite 0 else NaN)
               \<and> scalar s2 = r))"
proof -
  have "dof_compute e cls cm s = Inr s' \<longrightarrow> dof s' \<le> 0 \<longrightarrow> tfactor s' = 0"
    by (simp add: dof_compute_tfactor)
  moreover have "(tempbias s = 1 \<or> tempbias s = 2 \<longrightarrow> tbias s \<noteq> None)
      \<longrightarrow> (\<exists>s'. dof_compute e cls cm s = Inr s')"
    using dof_compute_total by blast
  moreover have "(dof s \<le> 0 \<longrightarrow> tfactor s = 0) \<longrightarrow> compute_scalar e cls cm s = Inr (s2, r)
      \<longrightarrow> dof s2 \<le> 0
      \<longrightarrow> (\<exists>sl t. compute_scalar_local e cls s = Inr (sl, t)
               \<and> r = (if is_finite (MPI_Allreduce_SUM_double t (others_t cm))
                      then Finite 0 else NaN)
               \<and> scalar s2 = r)"
    using compute_scalar_zero[of s e cls cm s2 r] by blast
  ultimately show ?thesis by blast
qed

text \<open>
  Claim C4 as the specification states it, that 0 is returned regardless of the
  velocities, fails. In the worked configuration with 40 extra degrees of freedom,
  \<open>30 - 40 = - 10\<close> are left and the scale factor is 0; when the particles move at
  \<open>10\<^sup>2\<^sup>0\<^sup>0\<close>, the square of the velocity overflows in line 178, the sum is an
  infinity and the value returned is NaN.
\<close>

theorem zero_claimed_fail:
  "map_sum id (\<lambda>x. (dof (fst x), tfactor (fst x), snd x)) (compute_scalar ex_env ex_cls ex_comm ex_fast)
     = Inr (- 10, 0, NaN)"
  by (simp add: code_defs double_defs ex_defs ex_fast_def upt_rec)

text \<open>
  In the worked configuration with 40 extra degrees of freedom the scale factor is 0
  and the dynamic evaluation returns 0; at \<open>10\<^sup>2\<^sup>0\<^sup>0\<close> the local sum is an infinity
  and it returns NaN.
\<close>

theorem nonpositive_dof_gives_zero_witness:
  "(\<exists>s'. dof_compute ex_env ex_cls ex_comm (ex_process\<lparr>extra_dof := 40\<rparr>) = Inr s'
          \<and> dof s' = - 10 \<and> tfactor s' = 0)
   \<and> (\<exists>s2. compute_scalar ex_env ex_cls ex_comm (ex_process\<lparr>dynamic := 1, extra_dof := 40\<rparr>)
              = Inr (s2, Finite 0)
          \<and> dof s2 = - 10 \<and> scalar s2 = Finite 0)
   \<and> (\<exists>s2. compute_scalar ex_env ex_cls ex_comm ex_fast = Inr (s2, NaN)
          \<and> dof s2 = - 10 \<and> scalar s2 = NaN)"
proof -
  have p: "tempbias (ex_process\<lparr>extra_dof := 40\<rparr>) = 1 \<or> tempbias (ex_process\<lparr>extra_dof := 40\<rparr>) = 2
           \<longrightarrow> tbias (ex_process\<lparr>extra_dof := 40\<rparr>) \<noteq> None"
    by (simp add: ex_process_def)
  from nonpositive_dof_gives_zero[of ex_env ex_cls ex_comm "ex_process\<lparr>extra_dof := 40\<rparr>"] p
  obtain s' where d: "dof_compute ex_env ex_cls ex_comm (ex_process\<lparr>extra_dof := 40\<rparr>) = Inr s'"
    by blast
  have "\<exists>s'. dof_compute ex_env ex_cls ex_comm (ex_process\<lparr>extra_dof := 40\<rparr>) = Inr s' \<and> dof s' = - 10"
    by (simp add: code_defs ex_defs)
  with d have d': "dof s' = - 10" by auto
  from nonpositive_dof_gives_zero[of ex_env ex_cls ex_comm "ex_process\<lparr>extra_dof := 40\<rparr>" s']
    d d' have t': "tfactor s' = 0" by simp
  have "\<exists>s2 r. compute_scalar ex_env ex_cls ex_comm (ex_process\<lparr>dynamic := 1, extra_dof := 40\<rparr>) = Inr (s2, r)
          \<and> dof s2 = - 10"
    by (simp add: code_defs double_defs ex_defs upt_rec)
  then obtain s2 r where c: "compute_scalar ex_env ex_cls ex_comm (ex_process\<lparr>dynamic := 1, extra_dof := 40\<rparr>) = Inr (s2, r)"
    and c': "dof s2 = - 10"
    by blast
  have i: "dof (ex_process\<lparr>dynamic := 1, extra_dof := 40\<rparr>) \<le> 0
           \<longrightarrow> tfactor (ex_process\<lparr>dynamic := 1, extra_dof := 40\<rparr>) = 0"
    by (simp add: ex_process_def)
  have l: "compute_scalar_local ex_env ex_cls (ex_process\<lparr>dynamic := 1, extra_dof := 40\<rparr>)
             = Inr (ex_process\<lparr>dynamic := 1, extra_dof := 40, invoked_scalar := 100\<rparr>, Finite 364)"
    by (simp add: code_defs double_defs ex_defs upt_rec)
  have fin: "is_finite (MPI_Allreduce_SUM_double (Finite 364) (others_t ex_comm))"
    by (simp add: code_defs double_defs ex_defs)
  from nonpositive_dof_gives_zero[where e = ex_env and cls = ex_cls and cm = ex_comm
      and s = "ex_process\<lparr>dynamic := 1, extra_dof := 40\<rparr>" and ?s2.0 = s2 and r = r] i c c' l fin
  have z: "r = Finite 0 \<and> scalar s2 = Finite 0" by simp
  have "\<exists>s2 r. compute_scalar ex_env ex_cls ex_comm ex_fast = Inr (s2, r) \<and> dof s2 = - 10"
    by (simp add: code_defs double_defs ex_defs ex_fast_def upt_rec)
  then obtain sf rf where cf: "compute_scalar ex_env ex_cls ex_comm ex_fast = Inr (sf, rf)"
    and cf': "dof sf = - 10"
    by blast
  have jf: "dof ex_fast \<le> 0 \<longrightarrow> tfactor ex_fast = 0"
    by (simp add: ex_fast_def ex_process_def)
  have lf: "compute_scalar_local ex_env ex_cls ex_fast = Inr (ex_fast\<lparr>invoked_scalar := 100\<rparr>, PInf)"
    by (simp add: code_defs double_defs ex_defs ex_fast_def upt_rec)
  have inf: "\<not> is_finite (MPI_Allreduce_SUM_double PInf (others_t ex_comm))"
    by (simp add: code_defs double_defs ex_defs)
  from nonpositive_dof_gives_zero[where e = ex_env and cls = ex_cls and cm = ex_comm
      and s = ex_fast and ?s2.0 = sf and r = rf] jf cf cf' lf inf
  have zf: "rf = NaN \<and> scalar sf = NaN" by simp
  from d d' t' c c' z cf cf' zf show ?thesis by auto
qed

section \<open>The scalar and the tensor result\<close>

text \<open>
  Claim C5. The value that \<^verbatim>\<open>compute_scalar\<close> returns and stores is the sum over all
  processes of the local sums times the scale factor of the state it leaves. The sum
  and the product are those of \<^verbatim>\<open>double\<close>s: whenever the sum is finite, it is the
  sum over the reals of the loop of this process and of the values of the other
  processes, and the value returned is its product over the reals with the scale
  factor, unless that overflows. When the compute is dynamic or the bias is of the
  region kind, the degrees of freedom and the scale factor of the state are those
  that \<^verbatim>\<open>dof_compute\<close> stores, run after the local part, and the scale factor is the
  units factor divided by the product of the degrees of freedom and the Boltzmann
  constant (0 when the degrees of freedom are not positive); otherwise both are those
  of the state before. In both cases a scale factor that belongs to the degrees of
  freedom before the call belongs to them after it. The tensor that
  \<^verbatim>\<open>compute_vector\<close> stores is the sum over all processes of the local sums, each
  entry times the units factor, and the degrees of freedom and the scale factor are
  left as they were.
\<close>

theorem scaling_of_results:
  "(compute_scalar e cls cm s = Inr (s', r) \<longrightarrow>
     (\<exists>sa s2. compute_scalar_remove e cls s = Inr sa
        \<and> compute_scalar_local e cls s = Inr (s2, compute_scalar_loop_double e (groupbit s) (atom sa))
        \<and> r = MPI_Allreduce_SUM_double (compute_scalar_loop_double e (groupbit s) (atom sa)) (others_t cm)
                * double_of (tfactor s')
        \<and> (\<forall>z. MPI_Allreduce_SUM_double (compute_scalar_loop_double e (groupbit s) (atom sa)) (others_t cm)
                  = Finite z \<longrightarrow>
               (\<exists>ys. others_t cm = map Finite ys
                    \<and> z = compute_scalar_loop e (groupbit s) (atom sa) + sum_list ys)
               \<and> (representable (tfactor s') \<and> representable (z * tfactor s')
                    \<longrightarrow> r = Finite (z * tfactor s')))
        \<and> scalar s' = r
        \<and> (if dynamic s \<noteq> 0 \<or> tempbias s = 2
           then (\<exists>s3. dof_compute e cls cm s2 = Inr s3 \<and> dof s' = dof s3 \<and> tfactor s' = tfactor s3)
                \<and> tfactor s' = tfactor_of e (dof s')
           else dof s' = dof s \<and> tfactor s' = tfactor s)
        \<and> (tfactor s = tfactor_of e (dof s) \<longrightarrow> tfactor s' = tfactor_of e (dof s'))))
   \<and> (compute_vector e cls cm s = Inr sv \<longrightarrow>
     (\<exists>sa s2. compute_vector_remove e cls s = Inr sa
        \<and> compute_vector_local e cls s = Inr (s2, compute_vector_loop e (groupbit s) (atom sa))
        \<and> vector sv = vec6_scale (MPI_Allreduce_SUM_double6 (compute_vector_loop e (groupbit s) (atom sa))
                                    (others_t6 cm)) (force_mvv2e e)
        \<and> dof sv = dof s \<and> tfactor sv = tfactor s))"
  using compute_scalar_result[of e cls cm s s' r] compute_vector_result[of e cls cm s sv]
  by blast

text \<open>
  In the worked configuration: with the region bias the local sum is 294, the other
  process adds 12, and \<open>306 \<times> 13/4 = 1989/2\<close>; without a bias and with a stored scale
  factor of 7 the value is \<open>376 \<times> 7\<close> and nothing is recomputed; the tensor is the
  reduced sum times 2.
\<close>

theorem scaling_of_results_witness:
  "(\<exists>s'. compute_scalar ex_env ex_cls ex_comm ex_region = Inr (s', Finite (1989 / 2))
        \<and> scalar s' = Finite (1989 / 2) \<and> dof s' = 8 \<and> tfactor s' = 13 / 4)
   \<and> (\<exists>s'. compute_scalar ex_env ex_cls ex_comm (ex_process\<lparr>dof := 26, tfactor := 7\<rparr>)
              = Inr (s', Finite 2632)
        \<and> scalar s' = Finite 2632 \<and> dof s' = 26 \<and> tfactor s' = 7)
   \<and> (\<exists>sv. compute_vector ex_env ex_cls ex_comm ex_region = Inr sv
        \<and> vector sv = (70, 220, 322, - 76, 162, - 36) \<and> dof sv = 8 \<and> tfactor sv = 13 / 4)"
proof -
  have "\<exists>s'. compute_scalar ex_env ex_cls ex_comm ex_region = Inr (s', Finite (1989 / 2)) \<and> dof s' = 8"
    by (simp add: code_defs double_defs ex_defs ex_region_def upt_rec)
  then obtain s' where cs: "compute_scalar ex_env ex_cls ex_comm ex_region = Inr (s', Finite (1989 / 2))"
    and d: "dof s' = 8"
    by blast
  have "\<exists>s'. compute_scalar ex_env ex_cls ex_comm (ex_process\<lparr>dof := 26, tfactor := 7\<rparr>)
              = Inr (s', Finite 2632)"
    by (simp add: code_defs double_defs ex_defs upt_rec)
  then obtain sn where cn: "compute_scalar ex_env ex_cls ex_comm (ex_process\<lparr>dof := 26, tfactor := 7\<rparr>)
              = Inr (sn, Finite 2632)"
    by blast
  have "\<exists>sv. compute_vector ex_env ex_cls ex_comm ex_region = Inr sv
          \<and> vector sv = (70, 220, 322, - 76, 162, - 36)"
    by (simp add: code_defs ex_defs ex_region_def upt_rec)
  then obtain sv where cv: "compute_vector ex_env ex_cls ex_comm ex_region = Inr sv"
    and v: "vector sv = (70, 220, 322, - 76, 162, - 36)"
    by blast
  have c: "dynamic ex_region \<noteq> 0 \<or> tempbias ex_region = 2"
    and nc: "\<not> (dynamic (ex_process\<lparr>dof := 26, tfactor := 7\<rparr>) \<noteq> 0
                \<or> tempbias (ex_process\<lparr>dof := 26, tfactor := 7\<rparr>) = 2)"
    by (simp_all add: ex_region_def ex_process_def)
  have t: "dof ex_region = 8" "tfactor ex_region = 13 / 4" "tfactor_of ex_env 8 = 13 / 4"
    by (simp_all add: ex_region_def ex_process_def ex_env_def tfactor_of_def)
  from scaling_of_results[of ex_env ex_cls ex_comm ex_region s' "Finite (1989 / 2)" sv] cs cv c
  have "scalar s' = Finite (1989 / 2)" and "tfactor s' = tfactor_of ex_env (dof s')"
    and "dof sv = dof ex_region" and "tfactor sv = tfactor ex_region"
    by auto
  moreover
  from scaling_of_results[of ex_env ex_cls ex_comm "ex_process\<lparr>dof := 26, tfactor := 7\<rparr>" sn "Finite 2632"]
    cn nc
  have "scalar sn = Finite 2632" and "dof sn = 26" and "tfactor sn = 7"
    by auto
  ultimately show ?thesis using cs cn cv d v t by auto
qed

text \<open>
  Claim C6, as amended. Let the two evaluations start in the same state, let their
  openings leave the same particle store when there is a bias (the same velocities
  after the bias is removed), and let the other processes contribute to the two
  reductions the sums of the two loops over their own particle stores \<open>others\<close>.
  Then the sum of the components \<open>xx, yy, zz\<close> that \<^verbatim>\<open>compute_vector\<close> stores is
  the energy sum over the particles of all processes times the units factor, and that
  energy sum is the sum that \<^verbatim>\<open>compute_scalar\<close> reduces and multiplies by the scale
  factor, whenever the latter is finite.
\<close>

theorem trace_consistent:
  assumes sa: "compute_scalar_remove e cls s = Inr sa"
    and sv: "compute_vector_remove e cls s = Inr sb"
    and same: "tempbias s \<noteq> 0 \<longrightarrow> atom sa = atom sb"
    and ot: "others_t cm = map (compute_scalar_loop_double e (groupbit s)) others"
    and ot6: "others_t6 cm = map (compute_vector_loop e (groupbit s)) others"
    and cs: "compute_scalar e cls cm s = Inr (s1, r)"
    and cv: "compute_vector e cls cm s = Inr s2"
  shows "(\<exists>sl. compute_scalar_local e cls s = Inr (sl, compute_scalar_loop_double e (groupbit s) (atom sa)))
     \<and> r = MPI_Allreduce_SUM_double (compute_scalar_loop_double e (groupbit s) (atom sa)) (others_t cm)
             * double_of (tfactor s1)
     \<and> vec6_trace (vector s2) =
         (compute_scalar_loop e (groupbit s) (atom sa)
          + sum_list (map (compute_scalar_loop e (groupbit s)) others)) * force_mvv2e e
     \<and> (is_finite (MPI_Allreduce_SUM_double (compute_scalar_loop_double e (groupbit s) (atom sa)) (others_t cm))
          \<longrightarrow> MPI_Allreduce_SUM_double (compute_scalar_loop_double e (groupbit s) (atom sa)) (others_t cm)
               = Finite (compute_scalar_loop e (groupbit s) (atom sa)
                         + sum_list (map (compute_scalar_loop e (groupbit s)) others)))"
proof -
  have eq: "atom sa = atom sb"
  proof (cases "tempbias s = 0")
    case True
    with sa sv show ?thesis
      by (auto simp add: compute_scalar_remove_nobias compute_vector_remove_nobias)
  next
    case False
    with same show ?thesis by simp
  qed
  from compute_scalar_result[OF cs] sa
  have l: "\<exists>sl. compute_scalar_local e cls s = Inr (sl, compute_scalar_loop_double e (groupbit s) (atom sa))"
    and r: "r = MPI_Allreduce_SUM_double (compute_scalar_loop_double e (groupbit s) (atom sa)) (others_t cm)
             * double_of (tfactor s1)"
    by auto
  from compute_vector_result[OF cv] sv
  have "vector s2 = vec6_scale (MPI_Allreduce_SUM_double6 (compute_vector_loop e (groupbit s) (atom sb))
                                    (others_t6 cm)) (force_mvv2e e)"
    by auto
  then have tr: "vec6_trace (vector s2) =
         (compute_scalar_loop e (groupbit s) (atom sa)
          + sum_list (map (compute_scalar_loop e (groupbit s)) others)) * force_mvv2e e"
    by (simp add: trace_scale trace_allreduce trace_loop eq ot6 comp_def)
  have fi: "MPI_Allreduce_SUM_double (compute_scalar_loop_double e (groupbit s) (atom sa)) (others_t cm)
               = Finite (compute_scalar_loop e (groupbit s) (atom sa)
                         + sum_list (map (compute_scalar_loop e (groupbit s)) others))"
    if "is_finite (MPI_Allreduce_SUM_double (compute_scalar_loop_double e (groupbit s) (atom sa)) (others_t cm))"
  proof -
    from that obtain z where
      z: "MPI_Allreduce_SUM_double (compute_scalar_loop_double e (groupbit s) (atom sa)) (others_t cm) = Finite z"
      by (cases "MPI_Allreduce_SUM_double (compute_scalar_loop_double e (groupbit s) (atom sa)) (others_t cm)")
        simp_all
    from allreduce_loop_exact[OF z] obtain ys where ys: "others_t cm = map Finite ys"
      and z': "z = compute_scalar_loop e (groupbit s) (atom sa) + sum_list ys" by blast
    from ys ot have "map (compute_scalar_loop_double e (groupbit s)) others = map Finite ys" by simp
    then have "ys = map (compute_scalar_loop e (groupbit s)) others"
      by (induction others arbitrary: ys) (auto dest: scalar_loop_exact)
    with z z' show ?thesis by simp
  qed
  from l r tr fi show ?thesis by blast
qed

text \<open>
  Claim C6 as the specification states it, for every particle configuration, fails.
  In the state \<open>ex_stale\<close> the bias compute has run its \<^verbatim>\<open>compute_scalar\<close> in this
  time step and holds the bias \<open>(1, 2, 3)\<close>: \<^verbatim>\<open>compute_scalar\<close> removes that bias and
  its reduced sum is 306, which makes 612 with the units factor 2.
  \<^verbatim>\<open>compute_vector\<close> first calls the bias compute's \<^verbatim>\<open>compute_vector\<close>, which finds
  the bias \<open>(0, 0, 0)\<close>: the components \<open>xx, yy, zz\<close> it stores sum to
  \<open>376 \<times> 2 = 752\<close>. The other process contributes the sums of the two loops over
  its particles.
\<close>

theorem trace_claimed_fail:
  "map_sum id (\<lambda>x. MPI_Allreduce_SUM_double (snd x) (others_t ex_comm))
     (compute_scalar_local ex_env ex_cls_first ex_stale) = Inr (Finite 306)
   \<and> force_mvv2e ex_env = 2
   \<and> map_sum id snd (compute_scalar ex_env ex_cls_first ex_comm ex_stale) = Inr (Finite (1989 / 2))
   \<and> map_sum id (\<lambda>x. vec6_trace (vector x)) (compute_vector ex_env ex_cls_first ex_comm ex_stale) = Inr 752
   \<and> others_t ex_comm = map (compute_scalar_loop_double ex_env (groupbit ex_stale)) [ex_other_atom]
   \<and> others_t6 ex_comm = map (compute_vector_loop ex_env (groupbit ex_stale)) [ex_other_atom]"
  by (simp add: code_defs double_defs ex_defs ex_cls_first_def ex_stale_def ex_region_def ex_other_atom_def
      vec6_trace_def upt_rec)

text \<open>
  In the worked configuration with the region bias the reduced sum is 306: the
  scalar is 306 times the scale factor and the trace is \<open>306 \<times> 2\<close>.
\<close>

theorem trace_consistent_witness:
  "\<exists>s1 r s2. compute_scalar ex_env ex_cls ex_comm ex_region = Inr (s1, r)
      \<and> compute_vector ex_env ex_cls ex_comm ex_region = Inr s2
      \<and> r = Finite 306 * double_of (tfactor s1) \<and> vec6_trace (vector s2) = 306 * 2"
proof -
  obtain sa where sa: "compute_scalar_remove ex_env ex_cls ex_region = Inr sa"
    and asa: "atom sa = snd (removed_scalar ex_env ex_cls ex_region 1)"
    by (simp add: compute_scalar_remove_bias[OF tb_region])
  obtain sb where sb: "compute_vector_remove ex_env ex_cls ex_region = Inr sb"
    and asb: "atom sb = snd (removed_vector ex_env ex_cls ex_region 1)"
    by (simp add: compute_vector_remove_bias[OF tb_region])
  have same: "tempbias ex_region \<noteq> 0 \<longrightarrow> atom sa = atom sb"
    unfolding asa asb by (simp add: spec_defs ex_defs ex_region_def fun_eq_iff)
  have ot: "others_t ex_comm = map (compute_scalar_loop_double ex_env (groupbit ex_region)) [ex_other_atom]"
    by (simp add: code_defs double_defs ex_defs ex_region_def ex_other_atom_def upt_rec)
  have ot6: "others_t6 ex_comm = map (compute_vector_loop ex_env (groupbit ex_region)) [ex_other_atom]"
    by (simp add: code_defs ex_defs ex_region_def ex_other_atom_def upt_rec)
  have "\<exists>s1. compute_scalar ex_env ex_cls ex_comm ex_region = Inr (s1, Finite (1989 / 2))"
    by (simp add: code_defs double_defs ex_defs ex_region_def upt_rec)
  then obtain s1 r where cs: "compute_scalar ex_env ex_cls ex_comm ex_region = Inr (s1, r)"
    by blast
  have "\<exists>s2. compute_vector ex_env ex_cls ex_comm ex_region = Inr s2"
    by (simp add: code_defs ex_defs ex_region_def upt_rec)
  then obtain s2 where cv: "compute_vector ex_env ex_cls ex_comm ex_region = Inr s2"
    by blast
  have val: "MPI_Allreduce_SUM_double (compute_scalar_loop_double ex_env (groupbit ex_region) (atom sa))
               (others_t ex_comm) = Finite 306"
    unfolding asa
    by (simp add: spec_defs code_defs double_defs ex_defs ex_region_def upt_rec)
  have val': "compute_scalar_loop ex_env (groupbit ex_region) (atom sa)
               + sum_list (map (compute_scalar_loop ex_env (groupbit ex_region)) [ex_other_atom]) = 306"
    unfolding asa
    by (simp add: spec_defs code_defs ex_defs ex_region_def ex_other_atom_def upt_rec)
  from trace_consistent[OF sa sb same ot ot6 cs cv] cs cv show ?thesis
    unfolding val val' by (auto simp: ex_env_def)
qed

text \<open>
  Claim C7. With a bias (\<open>tempbias\<close> is not 0, the pointer is valid) both evaluations
  return; the sums are accumulated over the particle store that
  \<^verbatim>\<open>remove_bias_all\<close> leaves, and the particle store and the bias object after the
  evaluation are those that \<^verbatim>\<open>restore_bias_all\<close> leaves when it is applied to them.
  Without a bias both evaluations return and leave the particle store and the
  registered computes as they were.
\<close>

theorem bias_brackets_accumulation:
  "(tempbias s \<noteq> 0 \<longrightarrow> tbias s = Some k \<longrightarrow>
      (\<exists>s'. compute_scalar e cls cm s =
             Inr (s', MPI_Allreduce_SUM_double
                        (compute_scalar_loop_double e (groupbit s) (snd (removed_scalar e cls s k)))
                        (others_t cm) * double_of (tfactor s'))
          \<and> atom s' = snd (restored cls (removed_scalar e cls s k))
          \<and> modify_compute s' = (modify_compute s)(k := fst (restored cls (removed_scalar e cls s k))))
    \<and> (\<exists>s'. compute_vector e cls cm s = Inr s'
          \<and> vector s' = vec6_scale (MPI_Allreduce_SUM_double6
                        (compute_vector_loop e (groupbit s) (snd (removed_vector e cls s k)))
                        (others_t6 cm)) (force_mvv2e e)
          \<and> atom s' = snd (restored cls (removed_vector e cls s k))
          \<and> modify_compute s' = (modify_compute s)(k := fst (restored cls (removed_vector e cls s k)))))
   \<and> (tempbias s = 0 \<longrightarrow>
      (\<exists>s' r. compute_scalar e cls cm s = Inr (s', r) \<and> atom s' = atom s
                \<and> modify_compute s' = modify_compute s)
    \<and> (\<exists>s'. compute_vector e cls cm s = Inr s' \<and> atom s' = atom s
                \<and> modify_compute s' = modify_compute s))"
  using bracket_scalar[of s k e cls cm] bracket_vector[of s k e cls cm] nobias_untouched[of s e cls cm]
  by blast

text \<open>
  In the worked configuration the bias receives \<^verbatim>\<open>compute_scalar\<close> (or
  \<^verbatim>\<open>compute_vector\<close>), \<^verbatim>\<open>remove_bias_all\<close> and \<^verbatim>\<open>restore_bias_all\<close> in this order,
  the sums are those of the velocities without the bias, and the velocities after
  the evaluation are the velocities before it.
\<close>

theorem bias_brackets_accumulation_witness:
  "(\<exists>s'. compute_scalar ex_env ex_cls ex_comm ex_region
              = Inr (s', Finite 306 * double_of (tfactor s'))
        \<and> atom_v (atom s') 0 = (0, 0, 0) \<and> atom_v (atom s') 1 = (1, 2, 3) \<and> atom_v (atom s') 2 = (7, 7, 7)
        \<and> xb_calls (modify_compute s' 1) = [''compute_scalar'', ''remove_bias_all'', ''restore_bias_all''])
   \<and> (\<exists>s'. compute_vector ex_env ex_cls ex_comm ex_region = Inr s'
        \<and> vector s' = (70, 220, 322, - 76, 162, - 36)
        \<and> atom_v (atom s') 0 = (0, 0, 0) \<and> atom_v (atom s') 1 = (1, 2, 3) \<and> atom_v (atom s') 2 = (7, 7, 7)
        \<and> xb_calls (modify_compute s' 1) = [''compute_vector'', ''remove_bias_all'', ''restore_bias_all''])
   \<and> (\<exists>s' r. compute_scalar ex_env ex_cls ex_comm ex_process = Inr (s', r) \<and> atom s' = ex_atom)
   \<and> (\<exists>s'. compute_vector ex_env ex_cls ex_comm ex_process = Inr s' \<and> atom s' = ex_atom)"
proof -
  have v1: "MPI_Allreduce_SUM_double
              (compute_scalar_loop_double ex_env (groupbit ex_region) (snd (removed_scalar ex_env ex_cls ex_region 1)))
              (others_t ex_comm) = Finite 306"
    by (simp add: spec_defs code_defs double_defs ex_defs ex_region_def upt_rec)
  have v2: "vec6_scale (MPI_Allreduce_SUM_double6
              (compute_vector_loop ex_env (groupbit ex_region) (snd (removed_vector ex_env ex_cls ex_region 1)))
              (others_t6 ex_comm)) (force_mvv2e ex_env) = (70, 220, 322, - 76, 162, - 36)"
    by (simp add: spec_defs code_defs ex_defs ex_region_def upt_rec)
  have a1: "atom_v (snd (restored ex_cls (removed_scalar ex_env ex_cls ex_region 1))) 0 = (0, 0, 0)"
    "atom_v (snd (restored ex_cls (removed_scalar ex_env ex_cls ex_region 1))) 1 = (1, 2, 3)"
    "atom_v (snd (restored ex_cls (removed_scalar ex_env ex_cls ex_region 1))) 2 = (7, 7, 7)"
    "xb_calls (fst (restored ex_cls (removed_scalar ex_env ex_cls ex_region 1)))
       = [''compute_scalar'', ''remove_bias_all'', ''restore_bias_all'']"
    by (simp_all add: spec_defs ex_defs ex_region_def)
  have a2: "atom_v (snd (restored ex_cls (removed_vector ex_env ex_cls ex_region 1))) 0 = (0, 0, 0)"
    "atom_v (snd (restored ex_cls (removed_vector ex_env ex_cls ex_region 1))) 1 = (1, 2, 3)"
    "atom_v (snd (restored ex_cls (removed_vector ex_env ex_cls ex_region 1))) 2 = (7, 7, 7)"
    "xb_calls (fst (restored ex_cls (removed_vector ex_env ex_cls ex_region 1)))
       = [''compute_vector'', ''remove_bias_all'', ''restore_bias_all'']"
    by (simp_all add: spec_defs ex_defs ex_region_def)
  have n: "tempbias ex_process = 0" "atom ex_process = ex_atom" by (simp_all add: ex_process_def)
  from bias_brackets_accumulation[of ex_region 1 ex_env ex_cls ex_comm] tb_region
  have "(\<exists>s'. compute_scalar ex_env ex_cls ex_comm ex_region
              = Inr (s', Finite 306 * double_of (tfactor s'))
          \<and> atom s' = snd (restored ex_cls (removed_scalar ex_env ex_cls ex_region 1))
          \<and> modify_compute s' = (modify_compute ex_region)(1 := fst (restored ex_cls (removed_scalar ex_env ex_cls ex_region 1))))"
   and "(\<exists>s'. compute_vector ex_env ex_cls ex_comm ex_region = Inr s'
          \<and> vector s' = (70, 220, 322, - 76, 162, - 36)
          \<and> atom s' = snd (restored ex_cls (removed_vector ex_env ex_cls ex_region 1))
          \<and> modify_compute s' = (modify_compute ex_region)(1 := fst (restored ex_cls (removed_vector ex_env ex_cls ex_region 1))))"
    unfolding v1 v2 by simp_all
  moreover from bias_brackets_accumulation[of ex_process 0 ex_env ex_cls ex_comm] n
  have "(\<exists>s' r. compute_scalar ex_env ex_cls ex_comm ex_process = Inr (s', r) \<and> atom s' = ex_atom)"
    and "(\<exists>s'. compute_vector ex_env ex_cls ex_comm ex_process = Inr s' \<and> atom s' = ex_atom)"
    by auto
  ultimately show ?thesis using a1 a2 by auto
qed

section \<open>Initialisation and the fixes\<close>

text \<open>
  Claim C8, as amended. \<^verbatim>\<open>init\<close> raises an error exactly when a monitored particle of
  the process has no ellipsoid record, or a bias is named and its name is not
  resolved, or the resolved compute does not calculate a temperature, or does not
  calculate a velocity bias, or belongs to another group, or raises an error in its
  own \<^verbatim>\<open>init\<close>. Otherwise \<^verbatim>\<open>init\<close> returns the state that \<^verbatim>\<open>dof_compute\<close>
  leaves, run on the state with the bias resolved and the sum over the fixes stored.
\<close>

theorem init_fails_exactly:
  "isl (init e cls cm s) = init_violation e cls s
   \<and> (\<not> init_violation e cls s \<longrightarrow>
        (\<exists>s1 s'. init_bias e cls s = Inr s1 \<and> init e cls cm s = Inr s'
           \<and> dof_compute e cls cm
                 (s1\<lparr>fix_dof := sum_list (map (\<lambda>i. modify_fix_dof e i (igroup s)) [0..<nat (modify_nfix e)])\<rparr>)
               = Inr s'))"
proof (cases "has_point_particle (groupbit s) (atom s)")
  case True
  then show ?thesis by (simp add: init_eq init_violation_def)
next
  case np: False
  show ?thesis
  proof (cases "init_bias e cls s")
    case (Inl err)
    then have "isl (init_bias e cls s)" by simp
    then have "init_violation e cls s" unfolding init_bias_isl init_violation_def by simp
    with Inl np show ?thesis by (simp add: init_eq)
  next
    case (Inr s1)
    then have "\<not> isl (init_bias e cls s)" by simp
    then have nv: "\<not> init_violation e cls s" unfolding init_bias_isl init_violation_def using np by simp
    from init_after_bias[OF Inr, of cm] obtain s' where
      d: "dof_compute e cls cm
                 (s1\<lparr>fix_dof := sum_list (map (\<lambda>i. modify_fix_dof e i (igroup s)) [0..<nat (modify_nfix e)])\<rparr>)
               = Inr s'" by blast
    with Inr np have "init e cls cm s = Inr s'" by (simp add: init_eq)
    with nv Inr d show ?thesis by simp
  qed
qed

text \<open>
  Claim C8 as the specification states it fails. The compute registered as \<open>plain\<close>
  calculates a temperature and no velocity bias, in the group of this compute, and
  every monitored particle is an ellipsoid: none of the four violations of the
  specification holds, and \<^verbatim>\<open>init\<close> raises an error.
\<close>

theorem init_claimed_fail:
  "\<not> init_violation_claimed ex_env ex_cls (ex_process\<lparr>tempbias := 1, id_bias := ''plain''\<rparr>)
   \<and> init ex_env ex_cls ex_comm (ex_process\<lparr>tempbias := 1, id_bias := ''plain''\<rparr>)
       = Inl (error_all ''Bias compute does not calculate a velocity bias'')"
  by (simp add: init_violation_claimed_def has_point_particle_def monitored_def resolved_bias_def
      init_def init_check_extended_def init_bias_def ex_defs upt_rec)

text \<open>
  In the worked configuration \<^verbatim>\<open>init\<close> fails for the bias \<open>plain\<close>, for a name that
  is not registered and for a group that holds the point particle, and succeeds for
  the bias \<open>reg\<close>, which it finds to be of the region kind.
\<close>

theorem init_fails_exactly_witness:
  "isl (init ex_env ex_cls ex_comm (ex_process\<lparr>tempbias := 1, id_bias := ''plain''\<rparr>))
   \<and> isl (init ex_env ex_cls ex_comm (ex_process\<lparr>tempbias := 1, id_bias := ''none''\<rparr>))
   \<and> isl (init ex_env ex_cls ex_comm (ex_process\<lparr>groupbit := 2\<rparr>))
   \<and> (\<exists>s'. init ex_env ex_cls ex_comm (ex_process\<lparr>tempbias := 1, id_bias := ''reg''\<rparr>) = Inr s'
          \<and> dof s' = 8 \<and> tempbias s' = 2 \<and> tbias s' = Some 1)"
proof -
  have v1: "init_violation ex_env ex_cls (ex_process\<lparr>tempbias := 1, id_bias := ''plain''\<rparr>)"
    by (simp add: init_violation_def resolved_bias_def ex_defs)
  have v2: "init_violation ex_env ex_cls (ex_process\<lparr>tempbias := 1, id_bias := ''none''\<rparr>)"
    by (simp add: init_violation_def resolved_bias_def ex_defs)
  have v3: "init_violation ex_env ex_cls (ex_process\<lparr>groupbit := 2\<rparr>)"
    by (simp add: init_violation_def has_point_particle_def monitored_def ex_defs upt_rec)
  have v4: "\<not> init_violation ex_env ex_cls (ex_process\<lparr>tempbias := 1, id_bias := ''reg''\<rparr>)"
    by (simp add: init_violation_def has_point_particle_def monitored_def resolved_bias_def
        ex_defs upt_rec)
  from init_fails_exactly[of ex_env ex_cls ex_comm "ex_process\<lparr>tempbias := 1, id_bias := ''reg''\<rparr>"] v4
  obtain s' where i: "init ex_env ex_cls ex_comm (ex_process\<lparr>tempbias := 1, id_bias := ''reg''\<rparr>) = Inr s'"
    by blast
  have "\<exists>s'. init ex_env ex_cls ex_comm (ex_process\<lparr>tempbias := 1, id_bias := ''reg''\<rparr>) = Inr s'
          \<and> dof s' = 8 \<and> tempbias s' = 2 \<and> tbias s' = Some 1"
    by (simp add: init_def init_check_extended_def init_bias_def code_defs ex_defs upt_rec)
  with i have "dof s' = 8 \<and> tempbias s' = 2 \<and> tbias s' = Some 1" by auto
  with i v1 v2 v3
    init_fails_exactly[of ex_env ex_cls ex_comm "ex_process\<lparr>tempbias := 1, id_bias := ''plain''\<rparr>"]
    init_fails_exactly[of ex_env ex_cls ex_comm "ex_process\<lparr>tempbias := 1, id_bias := ''none''\<rparr>"]
    init_fails_exactly[of ex_env ex_cls ex_comm "ex_process\<lparr>groupbit := 2\<rparr>"]
  show ?thesis by blast
qed

text \<open>
  Claim C9. \<^verbatim>\<open>init\<close> stores in \<open>fix_dof\<close> the sum of what the fixes report for the
  group. \<^verbatim>\<open>dof_compute\<close>, \<^verbatim>\<open>compute_scalar\<close> and \<^verbatim>\<open>compute_vector\<close> return the same
  whatever fixes \<^verbatim>\<open>modify\<close> holds when they run, and leave \<open>fix_dof\<close> as it was.
\<close>

theorem fix_dof_queried_once:
  "(init e cls cm s = Inr s' \<longrightarrow>
      fix_dof s' = sum_list (map (\<lambda>i. modify_fix_dof e i (igroup s)) [0..<nat (modify_nfix e)]))
   \<and> dof_compute (e\<lparr>modify_nfix := n, modify_fix_dof := f\<rparr>) cls cm s = dof_compute e cls cm s
   \<and> compute_scalar (e\<lparr>modify_nfix := n, modify_fix_dof := f\<rparr>) cls cm s = compute_scalar e cls cm s
   \<and> compute_vector (e\<lparr>modify_nfix := n, modify_fix_dof := f\<rparr>) cls cm s = compute_vector e cls cm s
   \<and> (dof_compute e cls cm s = Inr s1 \<longrightarrow> fix_dof s1 = fix_dof s)
   \<and> (compute_scalar e cls cm s = Inr (s2, r) \<longrightarrow> fix_dof s2 = fix_dof s)
   \<and> (compute_vector e cls cm s = Inr s3 \<longrightarrow> fix_dof s3 = fix_dof s)"
  using init_fix_dof[where e = e and cls = cls and cm = cm and s = s and s' = s']
    dof_compute_ignores_fixes[where e = e and n = n and f = f and cls = cls and cm = cm and s = s]
    compute_scalar_ignores_fixes[where e = e and n = n and f = f and cls = cls and cm = cm and s = s]
    compute_vector_ignores_fixes[where e = e and n = n and f = f and cls = cls and cm = cm and s = s]
    dof_compute_fields(3)[where e = e and cls = cls and cm = cm and s = s and s' = s1]
    compute_scalar_fix_dof[where e = e and cls = cls and cm = cm and s = s and ?s2.0 = s2 and r = r]
    compute_vector_fix_dof[where e = e and cls = cls and cm = cm and s = s and ?s3.0 = s3]
  by blast

text \<open>
  In the worked configuration \<^verbatim>\<open>init\<close> stores 4; a dynamic evaluation after all
  fixes are gone still finds \<open>30 - 4 = 26\<close> degrees of freedom.
\<close>

theorem fix_dof_queried_once_witness:
  "\<exists>s' s1 s2 r s3. init ex_env ex_cls ex_comm ex_process = Inr s' \<and> fix_dof s' = 4
     \<and> dof_compute (ex_env\<lparr>modify_nfix := 0, modify_fix_dof := (\<lambda>i g. 0)\<rparr>) ex_cls ex_comm s' = Inr s1
     \<and> fix_dof s1 = 4 \<and> dof s1 = 26
     \<and> compute_scalar (ex_env\<lparr>modify_nfix := 0, modify_fix_dof := (\<lambda>i g. 0)\<rparr>) ex_cls ex_comm
          (s'\<lparr>dynamic := 1\<rparr>) = Inr (s2, r)
     \<and> fix_dof s2 = 4 \<and> dof s2 = 26
     \<and> compute_vector (ex_env\<lparr>modify_nfix := 0, modify_fix_dof := (\<lambda>i g. 0)\<rparr>) ex_cls ex_comm s' = Inr s3
     \<and> fix_dof s3 = 4"
proof -
  have "\<exists>s'. init ex_env ex_cls ex_comm ex_process = Inr s'
          \<and> (\<exists>s1. dof_compute ex_env ex_cls ex_comm s' = Inr s1 \<and> dof s1 = 26)
          \<and> (\<exists>s2 r. compute_scalar ex_env ex_cls ex_comm (s'\<lparr>dynamic := 1\<rparr>) = Inr (s2, r) \<and> dof s2 = 26)
          \<and> (\<exists>s3. compute_vector ex_env ex_cls ex_comm s' = Inr s3)"
    by (simp add: init_def init_check_extended_def init_bias_def code_defs ex_defs upt_rec)
  then obtain s' s1 s2 r s3 where i: "init ex_env ex_cls ex_comm ex_process = Inr s'"
    and dc: "dof_compute ex_env ex_cls ex_comm s' = Inr s1" and d1: "dof s1 = 26"
    and c: "compute_scalar ex_env ex_cls ex_comm (s'\<lparr>dynamic := 1\<rparr>) = Inr (s2, r)"
    and d: "dof s2 = 26"
    and cv: "compute_vector ex_env ex_cls ex_comm s' = Inr s3"
    by blast
  have f: "sum_list (map (\<lambda>i. modify_fix_dof ex_env i (igroup ex_process)) [0..<nat (modify_nfix ex_env)]) = 4"
    by (simp add: ex_env_def upt_rec)
  from fix_dof_queried_once[where e = ex_env and cls = ex_cls and cm = ex_comm and s = ex_process
      and s' = s'] i
  have f': "fix_dof s' = 4" unfolding f by blast
  from fix_dof_queried_once[where e = ex_env and cls = ex_cls and cm = ex_comm
      and s = s' and n = 0 and f = "\<lambda>i g. 0" and ?s1.0 = s1 and ?s3.0 = s3] dc cv
  have dc2: "dof_compute (ex_env\<lparr>modify_nfix := 0, modify_fix_dof := (\<lambda>i g. 0)\<rparr>) ex_cls ex_comm s' = Inr s1"
    and f1: "fix_dof s1 = fix_dof s'"
    and cv2: "compute_vector (ex_env\<lparr>modify_nfix := 0, modify_fix_dof := (\<lambda>i g. 0)\<rparr>) ex_cls ex_comm s' = Inr s3"
    and f3: "fix_dof s3 = fix_dof s'"
    by auto
  from fix_dof_queried_once[where e = ex_env and cls = ex_cls and cm = ex_comm
      and s = "s'\<lparr>dynamic := 1\<rparr>" and n = 0 and f = "\<lambda>i g. 0" and ?s2.0 = s2 and r = r] c
  have c2: "compute_scalar (ex_env\<lparr>modify_nfix := 0, modify_fix_dof := (\<lambda>i g. 0)\<rparr>) ex_cls ex_comm
          (s'\<lparr>dynamic := 1\<rparr>) = Inr (s2, r)" and f2: "fix_dof s2 = fix_dof (s'\<lparr>dynamic := 1\<rparr>)"
    by auto
  from i f' dc2 f1 d1 c2 f2 d cv2 f3 show ?thesis by auto
qed

section \<open>The bias of one particle\<close>

text \<open>
  Claim C10. \<^verbatim>\<open>remove_bias\<close> and \<^verbatim>\<open>restore_bias\<close> hand the particle and the velocity
  to the bias compute, whatever \<open>tempbias\<close> and the group are, and are to leave the
  velocity and the state as they are for a compute without a bias. For that they test
  the pointer \<^verbatim>\<open>tbias\<close>, and no code makes the pointer null: the constructor
  assigns \<open>tempbias\<close> and \<open>id_bias\<close> and not the pointer, and \<^verbatim>\<open>init\<close> assigns it
  only when a bias is named. For the command \<^verbatim>\<open>compute T all temp/asphere\<close>, on
  an object whose memory holds the address of the compute \<open>vb\<close> in \<^verbatim>\<open>tbias\<close>, the
  constructor and \<^verbatim>\<open>init\<close> return with \<open>tempbias = 0\<close> and the pointer as it
  was; \<^verbatim>\<open>remove_bias\<close> then calls the compute \<open>vb\<close> and returns the velocity
  \<open>(5, 5, 5)\<close> as \<open>(4, 3, 2)\<close>, and \<^verbatim>\<open>restore_bias\<close> as \<open>(6, 7, 8)\<close>.
\<close>

theorem unassigned_bias_pointer:
  "ComputeTempAsphere True ex_object [''T'', ''all'', ''temp/asphere''] = Inr ex_constructed
   \<and> init ex_env ex_cls ex_comm ex_constructed = Inr ex_nobias
   \<and> tempbias ex_nobias = 0 \<and> id_bias ex_nobias = [] \<and> tbias ex_nobias = Some 0
   \<and> snd (remove_bias ex_cls ex_nobias 0 (5, 5, 5)) = (4, 3, 2)
   \<and> xb_calls (modify_compute (fst (remove_bias ex_cls ex_nobias 0 (5, 5, 5))) 0) = [''remove_bias'']
   \<and> snd (restore_bias ex_cls ex_nobias 0 (5, 5, 5)) = (6, 7, 8)
   \<and> xb_calls (modify_compute (fst (restore_bias ex_cls ex_nobias 0 (5, 5, 5))) 0) = [''restore_bias'']"
  by (simp add: ComputeTempAsphere_def init_def init_check_extended_def init_bias_def dof_compute_def
      int32_def remove_bias_def restore_bias_def Let_def ex_object_def ex_constructed_def ex_nobias_def
      ex_defs upt_rec)

end
